theory Spec2Isabelle
  imports Main
begin

section \<open>lemur/exceptions.py: the exception classes\<close>

text \<open>
  The classes of \<^verbatim>\<open>lemur/exceptions.py\<close>, with Python's built-in \<^verbatim>\<open>Exception\<close> as
  \<open>PyException\<close>. Constructing an instance runs the \<^verbatim>\<open>__init__\<close> that the class itself
  defines, or else the one it inherits from its base; an \<^verbatim>\<open>__init__\<close> that does not call
  \<^verbatim>\<open>super().__init__()\<close> hides the base one.
\<close>

datatype exc_class =
    PyException
  | LemurException
  | DuplicateError
  | InvalidListener
  | InvalidDistribution
  | TokenExchangeFailed
  | AttrNotFound
  | InvalidConfiguration
  | InvalidAuthority
  | UnknownProvider
  | IssuerPaymentRequired

text \<open>An exception instance: its class and the attributes \<^verbatim>\<open>__init__\<close> stored on it.\<close>

record exc_instance =
  exc_cls :: exc_class
  exc_attrs :: "(string \<times> string) list"

text \<open>
  Errors as values. \<open>Raised\<close> carries an instance of a class of \<^verbatim>\<open>exceptions.py\<close>; the others
  are the built-in exceptions that the modelled code can raise.
\<close>

datatype py_error =
    KeyError string
  | IndexError
  | TypeError
  | AttributeError
  | ValueError
  | Raised exc_instance

text \<open>\<^verbatim>\<open>current_app.logger\<close>: the instances handed to \<^verbatim>\<open>logger.exception\<close>, oldest first.\<close>

type_synonym logger = "exc_instance list"

fun base_class :: "exc_class \<Rightarrow> exc_class" where
  "base_class PyException = PyException"
| "base_class LemurException = PyException"
| "base_class DuplicateError = LemurException"
| "base_class InvalidListener = LemurException"
| "base_class InvalidDistribution = LemurException"
| "base_class TokenExchangeFailed = LemurException"
| "base_class AttrNotFound = LemurException"
| "base_class InvalidConfiguration = PyException"
| "base_class InvalidAuthority = PyException"
| "base_class UnknownProvider = PyException"
| "base_class IssuerPaymentRequired = LemurException"

type_synonym init_method =
  "string list \<Rightarrow> exc_instance \<Rightarrow> logger \<Rightarrow> py_error + (exc_instance \<times> logger)"

definition set_attr :: "exc_instance \<Rightarrow> string \<Rightarrow> string \<Rightarrow> exc_instance" where
  "set_attr self k v = self\<lparr>exc_attrs := exc_attrs self @ [(k, v)]\<rparr>"

text \<open>\<^verbatim>\<open>Exception.__init__(self, *args)\<close>: accepts anything, logs nothing.\<close>

definition Exception_init :: init_method where
  "Exception_init args self lg = Inr (self, lg)"

text \<open>
  \<^verbatim>\<open>LemurException.__init__(self, *args, **kwargs)\<close>:
  \<^verbatim>\<open>current_app.logger.exception(self)\<close>.
\<close>

definition LemurException_init :: init_method where
  "LemurException_init args self lg = Inr (self, lg @ [self])"

text \<open>
  The \<^verbatim>\<open>__init__\<close> written in the body of each class, \<open>None\<close> where the class has none.
  A call with the wrong number of arguments is Python's \<^verbatim>\<open>TypeError\<close>.
\<close>

fun class_init :: "exc_class \<Rightarrow> init_method option" where
  "class_init PyException = Some Exception_init"
| "class_init LemurException = Some LemurException_init"
| "class_init DuplicateError = Some (\<lambda>args self lg.
     case args of [key] \<Rightarrow> Inr (set_attr self ''key'' key, lg) | _ \<Rightarrow> Inl TypeError)"
| "class_init InvalidListener = None"
| "class_init InvalidDistribution = Some (\<lambda>args self lg.
     case args of [field] \<Rightarrow> Inr (set_attr self ''field'' field, lg) | _ \<Rightarrow> Inl TypeError)"
| "class_init TokenExchangeFailed = Some (\<lambda>args self lg.
     case args of [error, description] \<Rightarrow>
       Inr (set_attr (set_attr self ''error'' error) ''description'' description, lg)
     | _ \<Rightarrow> Inl TypeError)"
| "class_init AttrNotFound = Some (\<lambda>args self lg.
     case args of [field] \<Rightarrow> Inr (set_attr self ''field'' field, lg) | _ \<Rightarrow> Inl TypeError)"
| "class_init InvalidConfiguration = None"
| "class_init InvalidAuthority = None"
| "class_init UnknownProvider = None"
| "class_init IssuerPaymentRequired = Some (\<lambda>args self lg.
     case args of [message] \<Rightarrow> LemurException_init [] (set_attr self ''message'' message) lg
     | _ \<Rightarrow> Inl TypeError)"

text \<open>Method resolution: the class's own \<^verbatim>\<open>__init__\<close>, else its base's, else \<^verbatim>\<open>Exception\<close>'s.\<close>

definition resolve_init :: "exc_class \<Rightarrow> init_method" where
  "resolve_init c =
     (case class_init c of
        Some f \<Rightarrow> f
      | None \<Rightarrow> (case class_init (base_class c) of
                   Some f \<Rightarrow> f
                 | None \<Rightarrow> Exception_init))"

text \<open>\<^verbatim>\<open>c(*args)\<close>: a fresh instance of class \<open>c\<close>, initialised.\<close>

definition construct ::
  "exc_class \<Rightarrow> string list \<Rightarrow> logger \<Rightarrow> py_error + (exc_instance \<times> logger)" where
  "construct c args lg = resolve_init c args \<lparr>exc_cls = c, exc_attrs = []\<rparr> lg"


section \<open>Python values\<close>

text \<open>
  An authority row (\<^verbatim>\<open>lemur.authorities.models.Authority\<close>): the model class is not part of
  the sources at hand; the fields are the ones \<^verbatim>\<open>service.py\<close> reads.
\<close>

record authority =
  auth_id :: nat
  auth_name :: string
  plugin_name :: string

text \<open>
  The values that travel in the argument dictionaries. A dictionary is an association list
  in insertion order; \<^verbatim>\<open>d[k]\<close> reads the first binding of \<open>k\<close>.
\<close>

datatype pyval =
    PNone
  | PBool bool
  | PInt int
  | PStr string
  | PList "pyval list"
  | PDict "(string \<times> pyval) list"
  | PAuthority authority

type_synonym pydict = "(string \<times> pyval) list"

text \<open>Truth value of \<^verbatim>\<open>if x:\<close>.\<close>

fun truthy :: "pyval \<Rightarrow> bool" where
  "truthy PNone = False"
| "truthy (PBool b) = b"
| "truthy (PInt i) = (i \<noteq> 0)"
| "truthy (PStr s) = (s \<noteq> [])"
| "truthy (PList xs) = (xs \<noteq> [])"
| "truthy (PDict d) = (d \<noteq> [])"
| "truthy (PAuthority a) = True"

definition dict_del :: "string \<Rightarrow> pydict \<Rightarrow> pydict" where
  "dict_del k d = filter (\<lambda>kv. fst kv \<noteq> k) d"

text \<open>\<^verbatim>\<open>d.pop(k)\<close>: \<^verbatim>\<open>KeyError\<close> when \<open>k\<close> is absent; the dictionary loses the key.\<close>

definition dict_pop :: "pydict \<Rightarrow> string \<Rightarrow> py_error + (pyval \<times> pydict)" where
  "dict_pop d k =
     (case map_of d k of
        None \<Rightarrow> Inl (KeyError k)
      | Some v \<Rightarrow> Inr (v, dict_del k d))"

text \<open>\<^verbatim>\<open>d.pop(k, default)\<close>.\<close>

definition dict_pop_default :: "pydict \<Rightarrow> string \<Rightarrow> pyval \<Rightarrow> pyval \<times> pydict" where
  "dict_pop_default d k dflt =
     (case map_of d k of
        None \<Rightarrow> (dflt, d)
      | Some v \<Rightarrow> (v, dict_del k d))"

text \<open>\<^verbatim>\<open>d.get(k)\<close> and \<^verbatim>\<open>d.get(k, default)\<close>.\<close>

definition dict_get :: "pydict \<Rightarrow> string \<Rightarrow> pyval" where
  "dict_get d k = (case map_of d k of None \<Rightarrow> PNone | Some v \<Rightarrow> v)"

definition dict_get_default :: "pydict \<Rightarrow> string \<Rightarrow> pyval \<Rightarrow> pyval" where
  "dict_get_default d k dflt = (case map_of d k of None \<Rightarrow> dflt | Some v \<Rightarrow> v)"

text \<open>\<^verbatim>\<open>d[k]\<close> on a dictionary.\<close>

definition dict_item :: "pydict \<Rightarrow> string \<Rightarrow> py_error + pyval" where
  "dict_item d k = (case map_of d k of None \<Rightarrow> Inl (KeyError k) | Some v \<Rightarrow> Inr v)"

text \<open>\<^verbatim>\<open>d[k] = v\<close>: an existing key keeps its place, a new one goes last.\<close>

fun dict_set :: "pydict \<Rightarrow> string \<Rightarrow> pyval \<Rightarrow> pydict" where
  "dict_set [] k v = [(k, v)]"
| "dict_set ((k', v') # d) k v = (if k' = k then (k, v) # d else (k', v') # dict_set d k v)"

text \<open>
  \<^verbatim>\<open>x[k]\<close> with a string key on any value: only a dictionary supports it, anything else
  raises \<^verbatim>\<open>TypeError\<close>.
\<close>

fun subscript :: "pyval \<Rightarrow> string \<Rightarrow> py_error + pyval" where
  "subscript (PDict d) k = dict_item d k"
| "subscript _ k = Inl TypeError"

text \<open>\<^verbatim>\<open>for x in v\<close>: the elements the loop visits.\<close>

fun py_iter :: "pyval \<Rightarrow> py_error + pyval list" where
  "py_iter (PList xs) = Inr xs"
| "py_iter (PStr s) = Inr (map (\<lambda>c. PStr [c]) s)"
| "py_iter (PDict d) = Inr (map (\<lambda>kv. PStr (fst kv)) d)"
| "py_iter _ = Inl TypeError"

text \<open>\<^verbatim>\<open>xs[i]\<close> for \<open>i \<ge> 0\<close>: \<^verbatim>\<open>IndexError\<close> out of range.\<close>

definition list_item :: "'a list \<Rightarrow> nat \<Rightarrow> py_error + 'a" where
  "list_item xs i = (if i < length xs then Inr (xs ! i) else Inl IndexError)"

text \<open>\<^verbatim>\<open>s.split(sep)\<close> with a one-character separator: never empty, \<^verbatim>\<open>''.split(';') == ['']\<close>.\<close>

fun split_on :: "char \<Rightarrow> string \<Rightarrow> string list" where
  "split_on sep [] = [[]]"
| "split_on sep (c # cs) =
     (if c = sep then [] # split_on sep cs
      else (case split_on sep cs of
              [] \<Rightarrow> [[c]]
            | w # ws \<Rightarrow> (c # w) # ws))"

text \<open>\<^verbatim>\<open>p in s\<close> on strings: \<open>p\<close> occurs in \<open>s\<close> as a contiguous substring.\<close>

fun is_substring :: "string \<Rightarrow> string \<Rightarrow> bool" where
  "is_substring p [] = (p = [])"
| "is_substring p (c # cs) = (take (length p) (c # cs) = p \<or> is_substring p cs)"

text \<open>An integer argument: \<^verbatim>\<open>bool\<close> is a subclass of \<^verbatim>\<open>int\<close>, anything else is a \<^verbatim>\<open>TypeError\<close>.\<close>

fun py_int :: "pyval \<Rightarrow> py_error + int" where
  "py_int (PInt i) = Inr i"
| "py_int (PBool b) = Inr (if b then 1 else 0)"
| "py_int _ = Inl TypeError"


section \<open>The cryptography library's objects\<close>

text \<open>
  The objects of the \<^verbatim>\<open>cryptography\<close> package that \<^verbatim>\<open>create_csr\<close> builds, as plain data:
  what was asked of the library, not its encodings.
\<close>

datatype oid =
    OID_COMMON_NAME
  | OID_ORGANIZATION_NAME
  | OID_ORGANIZATIONAL_UNIT_NAME
  | OID_COUNTRY_NAME
  | OID_STATE_OR_PROVINCE_NAME
  | OID_LOCALITY_NAME

text \<open>
  A key from \<^verbatim>\<open>rsa.generate_private_key\<close>; \<open>key_serial\<close> tells the keys of one run apart.
\<close>

record rsa_private_key =
  public_exponent :: nat
  key_size :: nat
  key_serial :: nat

datatype general_name = DNSName pyval

datatype x509_extension =
    BasicConstraints bool "nat option"
  | SubjectAlternativeName "general_name list"

datatype hash_algorithm = SHA256

text \<open>\<^verbatim>\<open>x509.CertificateSigningRequestBuilder\<close>: subject and (extension, critical) pairs.\<close>

record csr_builder =
  b_subject :: "(oid \<times> string) list"
  b_extensions :: "(x509_extension \<times> bool) list"

text \<open>The signed request that \<^verbatim>\<open>builder.sign\<close> returns.\<close>

record signing_request =
  csr_subject :: "(oid \<times> string) list"
  csr_extensions :: "(x509_extension \<times> bool) list"
  csr_key :: rsa_private_key
  csr_hash :: hash_algorithm

datatype key_format = TraditionalOpenSSL | PKCS8

datatype key_encryption = NoEncryption

text \<open>PEM data: opaque text, a serialised private key, or a serialised request.\<close>

datatype pem =
    PemText string
  | PemPrivateKey key_format key_encryption rsa_private_key
  | PemCsr signing_request


section \<open>The data model\<close>

text \<open>
  A certificate row (\<^verbatim>\<open>lemur.certificates.models.Certificate\<close>). The model class is not part
  of the sources at hand; the fields are those of the specification's data model that
  \<^verbatim>\<open>service.py\<close> reads or writes. \<open>cert_id\<close> is \<open>None\<close> until the row is first persisted; the
  association lists hold the ids of the associated rows; \<open>owner\<close> and \<open>description\<close> hold
  whatever value was assigned (\<open>PNone\<close> for \<^verbatim>\<open>NULL\<close>).
\<close>

record certificate =
  cert_id :: "nat option"
  cert_name :: string
  body :: pem
  private_key :: "pem option"
  chain :: "pem option"
  issuer :: "string option"
  not_before :: "int option"
  not_after :: "int option"
  owner :: pyval
  active :: bool
  description :: pyval
  cert_user_id :: "nat option"
  cert_authority_id :: "nat option"
  destinations :: "nat list"
  notifications :: "nat list"
  elb_listeners :: "nat list"

record role =
  role_name :: string
  role_user_id :: "nat option"

text \<open>\<^verbatim>\<open>g.user\<close>: the authenticated caller.\<close>

record user =
  user_id :: nat
  email :: string
  user_certificates :: "nat list"

text \<open>
  The state the service works on: the persisted rows, the next free certificate id, and
  every key that \<^verbatim>\<open>rsa.generate_private_key\<close> has produced so far.
\<close>

record world =
  db_certificates :: "certificate list"
  db_authorities :: "authority list"
  db_roles :: "role list"
  db_users :: "user list"
  next_cert_id :: nat
  keys_generated :: "rsa_private_key list"

text \<open>The \<^verbatim>\<open>items\<close>/\<^verbatim>\<open>total\<close> page that \<^verbatim>\<open>database.sort_and_page\<close> returns.\<close>

record page =
  page_items :: "certificate list"
  page_total :: nat

text \<open>
  The collaborators outside \<^verbatim>\<open>service.py\<close>, taken as parameters: the SQL engine's
  \<^verbatim>\<open>ILIKE\<close> (column value, then pattern) and its comparison of a column value with a bound
  value, \<^verbatim>\<open>database.sort_and_page\<close>, \<^verbatim>\<open>database.filter\<close>, \<^verbatim>\<open>database.update_list\<close>
  (entity, relation name, requested list), the plugin registry (\<open>None\<close> for an unknown
  name; a plugin is its \<^verbatim>\<open>create_certificate\<close>), the fields that the
  \<^verbatim>\<open>Certificate\<close> constructor derives from a certificate body, and the text that the
  interpreter gives for a list, a dictionary or a model object.
\<close>

record collab =
  ilike :: "string \<Rightarrow> string \<Rightarrow> bool"
  col_eq :: "pyval \<Rightarrow> pyval \<Rightarrow> bool"
  sort_and_page :: "certificate list \<Rightarrow> pydict \<Rightarrow> py_error + page"
  database_filter :: "certificate list \<Rightarrow> string list \<Rightarrow> py_error + certificate list"
  update_list :: "certificate \<Rightarrow> string \<Rightarrow> pyval \<Rightarrow> py_error + certificate"
  plugins :: "string \<Rightarrow> (pem \<Rightarrow> pydict \<Rightarrow> py_error + (pem \<times> pem)) option"
  parse_body :: "pem \<Rightarrow> string \<times> string option \<times> int option \<times> int option"
  object_text :: "pyval \<Rightarrow> string"


section \<open>certificates/service.py: render\<close>

text \<open>\<^verbatim>\<open>'%{0}%'.format(v)\<close>.\<close>

definition like_pattern :: "string \<Rightarrow> string" where
  "like_pattern v = CHR ''%'' # v @ [CHR ''%'']"

text \<open>
  A date formatted as \<^verbatim>\<open>YYYY-MM-DD\<close> and compared with a timestamp column stands for
  midnight of that day. Times are seconds since the epoch.
\<close>

definition format_date :: "int \<Rightarrow> int" where
  "format_date t = (t div 86400) * 86400"

definition weeks :: "int \<Rightarrow> int" where
  "weeks n = n * 604800"

text \<open>
  The query of the \<^verbatim>\<open>issuer\<close> branch: the ids of the authorities whose name matches, then
  the certificates whose raw issuer matches or whose authority is among them. A \<^verbatim>\<open>NULL\<close>
  column satisfies neither condition.
\<close>

definition issuer_query :: "collab \<Rightarrow> world \<Rightarrow> certificate list \<Rightarrow> string \<Rightarrow> certificate list" where
  "issuer_query cb w query v =
     (let sub_query = map auth_id
            (filter (\<lambda>a. ilike cb (auth_name a) (like_pattern v)) (db_authorities w))
      in filter (\<lambda>c.
            (case issuer c of None \<Rightarrow> False | Some i \<Rightarrow> ilike cb i (like_pattern v))
            \<or> (case cert_authority_id c of None \<Rightarrow> False | Some a \<Rightarrow> a \<in> set sub_query))
          query)"

text \<open>\<^verbatim>\<open>Certificate.destinations.any(Destination.id == v)\<close> and the same for notifications.\<close>

definition any_destination :: "collab \<Rightarrow> pyval \<Rightarrow> certificate \<Rightarrow> bool" where
  "any_destination cb v c = list_ex (\<lambda>d. col_eq cb (PInt (int d)) v) (destinations c)"

definition any_notification :: "collab \<Rightarrow> pyval \<Rightarrow> certificate \<Rightarrow> bool" where
  "any_notification cb v c = list_ex (\<lambda>n. col_eq cb (PInt (int n)) v) (notifications c)"

text \<open>
  The outcome of the \<^verbatim>\<open>if filt:\<close> block of \<^verbatim>\<open>render\<close>: the function has returned a page, or
  goes on with a query.
\<close>

datatype flow = Return page | Continue "certificate list"

definition render_filter ::
  "collab \<Rightarrow> world \<Rightarrow> certificate list \<Rightarrow> pyval \<Rightarrow> pydict \<Rightarrow> py_error + flow" where
  "render_filter cb w query filt args =
     (if truthy filt then
        (case filt of
           PStr s \<Rightarrow>
             (let terms = split_on CHR '';'' s in
              if ''issuer'' \<in> set terms then
                (case list_item terms 1 of
                   Inl e \<Rightarrow> Inl e
                 | Inr v \<Rightarrow>
                     (case sort_and_page cb (issuer_query cb w query v) args of
                        Inl e \<Rightarrow> Inl e
                      | Inr p \<Rightarrow> Inr (Return p)))
              else if ''destination'' \<in> set terms then
                (case list_item terms 1 of
                   Inl e \<Rightarrow> Inl e
                 | Inr v \<Rightarrow> Inr (Continue (filter (any_destination cb (PStr v)) query)))
              else if is_substring ''active'' s then
                (case list_item terms 1 of
                   Inl e \<Rightarrow> Inl e
                 | Inr v \<Rightarrow>
                     Inr (Continue (filter (\<lambda>c. col_eq cb (PBool (active c)) (PStr v)) query)))
              else
                (case database_filter cb query terms of
                   Inl e \<Rightarrow> Inl e
                 | Inr q \<Rightarrow> Inr (Continue q)))
         | _ \<Rightarrow> Inl AttributeError)
      else Inr (Continue query))"

text \<open>The four filters after the free-text one, each applied when its argument is truthy.\<close>

definition render_show :: "world \<Rightarrow> user \<Rightarrow> pyval \<Rightarrow> certificate list \<Rightarrow> certificate list" where
  "render_show w g_user show query =
     (if truthy show then
        (let sub_query = map role_name
               (filter (\<lambda>r. role_user_id r = Some (user_id g_user)) (db_roles w))
         in filter (\<lambda>c.
               cert_user_id c = Some (user_id g_user)
               \<or> (case owner c of PStr ow \<Rightarrow> ow \<in> set sub_query | _ \<Rightarrow> False))
             query)
      else query)"

definition render_time_range :: "int \<Rightarrow> pyval \<Rightarrow> certificate list \<Rightarrow> py_error + certificate list" where
  "render_time_range now time_range query =
     (if truthy time_range then
        (case py_int time_range of
           Inl e \<Rightarrow> Inl e
         | Inr n \<Rightarrow>
             (let to = format_date (now + weeks n);
                  now' = format_date now
              in Inr (filter (\<lambda>c. case not_after c of None \<Rightarrow> False | Some t \<Rightarrow> t \<ge> now')
                       (filter (\<lambda>c. case not_after c of None \<Rightarrow> False | Some t \<Rightarrow> t \<le> to)
                          query))))
      else Inr query)"

text \<open>
  \<^verbatim>\<open>render(args)\<close>, with the database, \<^verbatim>\<open>g.user\<close> and the clock (\<^verbatim>\<open>arrow.now()\<close>) as
  arguments. \<open>args\<close> is popped key by key; what is left goes to \<^verbatim>\<open>sort_and_page\<close>.
\<close>

definition render :: "collab \<Rightarrow> world \<Rightarrow> user \<Rightarrow> int \<Rightarrow> pydict \<Rightarrow> py_error + page" where
  "render cb w g_user now args0 =
     (let query = db_certificates w in
      case dict_pop args0 ''time_range'' of Inl e \<Rightarrow> Inl e | Inr (time_range, args1) \<Rightarrow>
      case dict_pop args1 ''destination_id'' of Inl e \<Rightarrow> Inl e | Inr (destination_id, args2) \<Rightarrow>
      case dict_pop_default args2 ''notification_id'' PNone of (notification_id, args3) \<Rightarrow>
      case dict_pop args3 ''show'' of Inl e \<Rightarrow> Inl e | Inr (show, args4) \<Rightarrow>
      case dict_pop args4 ''filter'' of Inl e \<Rightarrow> Inl e | Inr (filt, args) \<Rightarrow>
      case render_filter cb w query filt args of
        Inl e \<Rightarrow> Inl e
      | Inr (Return p) \<Rightarrow> Inr p
      | Inr (Continue query1) \<Rightarrow>
          (let query2 = render_show w g_user show query1;
               query3 = (if truthy destination_id
                         then filter (any_destination cb destination_id) query2 else query2);
               query4 = (if truthy notification_id
                         then filter (any_notification cb notification_id) query3 else query3)
           in case render_time_range now time_range query4 of
                Inl e \<Rightarrow> Inl e
              | Inr query5 \<Rightarrow> sort_and_page cb query5 args))"


section \<open>certificates/service.py: the request builder \<^verbatim>\<open>create_csr\<close>\<close>

text \<open>
  \<^verbatim>\<open>rsa.generate_private_key(public_exponent, key_size, backend)\<close>: a fresh key, recorded in
  the state.
\<close>

definition generate_private_key :: "nat \<Rightarrow> nat \<Rightarrow> world \<Rightarrow> rsa_private_key \<times> world" where
  "generate_private_key e bits w =
     (let k = \<lparr>public_exponent = e, key_size = bits, key_serial = length (keys_generated w)\<rparr>
      in (k, w\<lparr>keys_generated := keys_generated w @ [k]\<rparr>))"

text \<open>The decimal digits of a natural number, as \<^verbatim>\<open>str\<close> prints them.\<close>

fun decimal :: "nat \<Rightarrow> string" where
  "decimal n =
     (if n < 10 then [''0123456789'' ! n]
      else decimal (n div 10) @ [''0123456789'' ! (n mod 10)])"

declare decimal.simps [simp del]

definition int_text :: "int \<Rightarrow> string" where
  "int_text i = (if i < 0 then CHR ''-'' # decimal (nat (- i)) else decimal (nat i))"

text \<open>
  \<^verbatim>\<open>unicode(v)\<close>: the text of a value. A string (\<open>PStr\<close> is a text string) is returned as it
  is, an integer in decimal, a truth value and \<^verbatim>\<open>None\<close> by their names; the text of any
  other object is the interpreter's.
\<close>

fun unicode :: "collab \<Rightarrow> pyval \<Rightarrow> string" where
  "unicode cb (PStr s) = s"
| "unicode cb (PInt i) = int_text i"
| "unicode cb (PBool b) = (if b then ''True'' else ''False'')"
| "unicode cb PNone = ''None''"
| "unicode cb v = object_text cb v"

text \<open>
  The list of \<^verbatim>\<open>x509.NameAttribute\<close>s: the six reads of \<open>csr_config\<close> happen in this order,
  and the first missing key raises \<^verbatim>\<open>KeyError\<close>.
\<close>

definition subject_name :: "collab \<Rightarrow> pydict \<Rightarrow> py_error + (oid \<times> string) list" where
  "subject_name cb csr_config =
     (case dict_item csr_config ''commonName'' of Inl e \<Rightarrow> Inl e | Inr cn \<Rightarrow>
      case dict_item csr_config ''organization'' of Inl e \<Rightarrow> Inl e | Inr org \<Rightarrow>
      case dict_item csr_config ''organizationalUnit'' of Inl e \<Rightarrow> Inl e | Inr ou \<Rightarrow>
      case dict_item csr_config ''country'' of Inl e \<Rightarrow> Inl e | Inr co \<Rightarrow>
      case dict_item csr_config ''state'' of Inl e \<Rightarrow> Inl e | Inr st \<Rightarrow>
      case dict_item csr_config ''location'' of Inl e \<Rightarrow> Inl e | Inr loc \<Rightarrow>
        Inr [(OID_COMMON_NAME, unicode cb cn),
             (OID_ORGANIZATION_NAME, unicode cb org),
             (OID_ORGANIZATIONAL_UNIT_NAME, unicode cb ou),
             (OID_COUNTRY_NAME, unicode cb co),
             (OID_STATE_OR_PROVINCE_NAME, unicode cb st),
             (OID_LOCALITY_NAME, unicode cb loc)])"

fun same_extension :: "x509_extension \<Rightarrow> x509_extension \<Rightarrow> bool" where
  "same_extension (BasicConstraints _ _) (BasicConstraints _ _) = True"
| "same_extension (SubjectAlternativeName _) (SubjectAlternativeName _) = True"
| "same_extension _ _ = False"

text \<open>
  \<^verbatim>\<open>builder.add_extension(ext, critical)\<close>: the library refuses an extension that the
  builder already holds with \<^verbatim>\<open>ValueError\<close>.
\<close>

definition add_extension :: "csr_builder \<Rightarrow> x509_extension \<Rightarrow> bool \<Rightarrow> py_error + csr_builder" where
  "add_extension b ext critical =
     (if list_ex (\<lambda>ec. same_extension (fst ec) ext) (b_extensions b) then Inl ValueError
      else Inr (b\<lparr>b_extensions := b_extensions b @ [(ext, critical)]\<rparr>))"

text \<open>
  The inner loop \<^verbatim>\<open>for name in v['names']\<close>: \<open>general_names\<close> is the list built so far.
\<close>

fun general_names_loop :: "pyval list \<Rightarrow> general_name list \<Rightarrow> py_error + general_name list" where
  "general_names_loop [] general_names = Inr general_names"
| "general_names_loop (name # names) general_names =
     (case subscript name ''nameType'' of
        Inl e \<Rightarrow> Inl e
      | Inr t \<Rightarrow>
          if t = PStr ''DNSName'' then
            (case subscript name ''value'' of
               Inl e \<Rightarrow> Inl e
             | Inr v \<Rightarrow> general_names_loop names (general_names @ [DNSName v]))
          else general_names_loop names general_names)"

text \<open>The outer loop \<^verbatim>\<open>for k, v in csr_config.get('extensions', {}).items()\<close>.\<close>

fun extensions_loop :: "pydict \<Rightarrow> csr_builder \<Rightarrow> py_error + csr_builder" where
  "extensions_loop [] builder = Inr builder"
| "extensions_loop ((k, v) # kvs) builder =
     (if k = ''subAltNames'' then
        (case subscript v ''names'' of Inl e \<Rightarrow> Inl e | Inr ns \<Rightarrow>
         case py_iter ns of Inl e \<Rightarrow> Inl e | Inr names \<Rightarrow>
         case general_names_loop names [] of Inl e \<Rightarrow> Inl e | Inr general_names \<Rightarrow>
         case add_extension builder (SubjectAlternativeName general_names) True of
           Inl e \<Rightarrow> Inl e
         | Inr builder' \<Rightarrow> extensions_loop kvs builder')
      else extensions_loop kvs builder)"

text \<open>\<^verbatim>\<open>x.items()\<close>: only a dictionary has it.\<close>

fun dict_items :: "pyval \<Rightarrow> py_error + pydict" where
  "dict_items (PDict d) = Inr d"
| "dict_items _ = Inl AttributeError"

definition sign :: "csr_builder \<Rightarrow> rsa_private_key \<Rightarrow> hash_algorithm \<Rightarrow> signing_request" where
  "sign b k h = \<lparr>csr_subject = b_subject b, csr_extensions = b_extensions b,
                 csr_key = k, csr_hash = h\<rparr>"

text \<open>
  \<^verbatim>\<open>create_csr(csr_config)\<close>: the result (the request and the key, both as PEM) or the
  error raised, and the state afterwards. The key is generated first.
\<close>

definition create_csr ::
  "collab \<Rightarrow> pydict \<Rightarrow> world \<Rightarrow> (py_error + (pem \<times> pem)) \<times> world" where
  "create_csr cb csr_config w =
     (case generate_private_key 65537 2048 w of (key, w1) \<Rightarrow>
        ((case subject_name cb csr_config of Inl e \<Rightarrow> Inl e | Inr subj \<Rightarrow>
          case add_extension \<lparr>b_subject = subj, b_extensions = []\<rparr>
                 (BasicConstraints False None) True of Inl e \<Rightarrow> Inl e | Inr builder \<Rightarrow>
          case dict_items (dict_get_default csr_config ''extensions'' (PDict [])) of
            Inl e \<Rightarrow> Inl e | Inr exts \<Rightarrow>
          case extensions_loop exts builder of Inl e \<Rightarrow> Inl e | Inr builder' \<Rightarrow>
            (let request = sign builder' key SHA256;
                 pem = PemPrivateKey TraditionalOpenSSL NoEncryption key;
                 csr = PemCsr request
             in Inr (csr, pem))),
         w1))"


section \<open>The persistence collaborator\<close>

text \<open>
  Modelled from the spec: the \<^verbatim>\<open>Certificate\<close> constructor of
  \<^verbatim>\<open>lemur.certificates.models\<close>, which is not among the sources. It stores body, private
  key and chain, derives name, issuer and validity from the body, and starts with no
  associations.
\<close>

definition Certificate_init :: "collab \<Rightarrow> pem \<Rightarrow> pem option \<Rightarrow> pem option \<Rightarrow> certificate" where
  "Certificate_init cb cert_body key cert_chain =
     (case parse_body cb cert_body of (nm, iss, nb, na) \<Rightarrow>
        \<lparr>cert_id = None, cert_name = nm, body = cert_body, private_key = key,
         chain = cert_chain, issuer = iss, not_before = nb, not_after = na, owner = PNone,
         active = True, description = PNone, cert_user_id = None, cert_authority_id = None,
         destinations = [], notifications = [], elb_listeners = []\<rparr>)"

text \<open>
  Modelled from the spec: \<^verbatim>\<open>database.update(entity)\<close> and \<^verbatim>\<open>database.create(entity)\<close> of
  the \<^verbatim>\<open>lemur.database\<close> module, which is not among the sources. Both write the entity
  durably: a certificate without an id gets the next free id and a new row, one with an id
  overwrites its row. They return the entity as persisted.
\<close>

definition database_update :: "world \<Rightarrow> certificate \<Rightarrow> certificate \<times> world" where
  "database_update w cert =
     (case cert_id cert of
        None \<Rightarrow>
          (let cert' = cert\<lparr>cert_id := Some (next_cert_id w)\<rparr>
           in (cert', w\<lparr>db_certificates := db_certificates w @ [cert'],
                        next_cert_id := Suc (next_cert_id w)\<rparr>))
      | Some i \<Rightarrow>
          (cert, w\<lparr>db_certificates :=
                      map (\<lambda>c. if cert_id c = Some i then cert else c) (db_certificates w)\<rparr>))"

definition database_create :: "world \<Rightarrow> certificate \<Rightarrow> certificate \<times> world" where
  "database_create w cert = database_update w cert"

text \<open>Modelled from the spec: \<^verbatim>\<open>database.update\<close> on a user row.\<close>

definition database_update_user :: "world \<Rightarrow> user \<Rightarrow> world" where
  "database_update_user w u =
     (if list_ex (\<lambda>x. user_id x = user_id u) (db_users w)
      then w\<lparr>db_users := map (\<lambda>x. if user_id x = user_id u then u else x) (db_users w)\<rparr>
      else w\<lparr>db_users := db_users w @ [u]\<rparr>)"

text \<open>
  Modelled from the spec: \<^verbatim>\<open>database.get(Certificate, cert_id)\<close>, the row with that id or
  \<^verbatim>\<open>None\<close>.
\<close>

definition database_get :: "world \<Rightarrow> nat \<Rightarrow> certificate option" where
  "database_get w i = find (\<lambda>c. cert_id c = Some i) (db_certificates w)"

text \<open>
  Modelled from the spec: \<^verbatim>\<open>database.update_list(entity, relation, related_type, ids)\<close>, which
  is not among the sources. The specification gives it set reconciliation: the
  associations that are not requested are removed, the requested ones that are missing are
  added.
\<close>

definition reconcile :: "nat list \<Rightarrow> nat list \<Rightarrow> nat list" where
  "reconcile current requested =
     filter (\<lambda>i. i \<in> set requested) current
     @ remdups (filter (\<lambda>i. i \<notin> set current) requested)"

fun requested_id :: "pyval \<Rightarrow> py_error + nat" where
  "requested_id (PInt i) = (if 0 \<le> i then Inr (nat i) else Inl ValueError)"
| "requested_id _ = Inl TypeError"

fun requested_ids_list :: "pyval list \<Rightarrow> py_error + nat list" where
  "requested_ids_list [] = Inr []"
| "requested_ids_list (v # vs) =
     (case requested_id v of Inl e \<Rightarrow> Inl e | Inr i \<Rightarrow>
      case requested_ids_list vs of Inl e \<Rightarrow> Inl e | Inr ids \<Rightarrow> Inr (i # ids))"

fun requested_ids :: "pyval \<Rightarrow> py_error + nat list" where
  "requested_ids (PList vs) = requested_ids_list vs"
| "requested_ids _ = Inl TypeError"

definition update_list_reconcile :: "certificate \<Rightarrow> string \<Rightarrow> pyval \<Rightarrow> py_error + certificate" where
  "update_list_reconcile cert relation v =
     (case requested_ids v of
        Inl e \<Rightarrow> Inl e
      | Inr ids \<Rightarrow>
          if relation = ''destinations'' then
            Inr (cert\<lparr>destinations := reconcile (destinations cert) ids\<rparr>)
          else if relation = ''notifications'' then
            Inr (cert\<lparr>notifications := reconcile (notifications cert) ids\<rparr>)
          else Inl AttributeError)"


section \<open>certificates/service.py: get, update, mint, create\<close>

definition get :: "world \<Rightarrow> nat \<Rightarrow> certificate option" where
  "get w cid = database_get w cid"

text \<open>
  \<^verbatim>\<open>update(cert_id, owner, description, active, destinations, notifications)\<close>. When no row
  has the id, \<^verbatim>\<open>get\<close> returns \<^verbatim>\<open>None\<close> and the first assignment raises \<^verbatim>\<open>AttributeError\<close>.
\<close>

definition update ::
  "collab \<Rightarrow> world \<Rightarrow> nat \<Rightarrow> pyval \<Rightarrow> pyval \<Rightarrow> bool \<Rightarrow> pyval \<Rightarrow> pyval
     \<Rightarrow> (py_error + certificate) \<times> world" where
  "update cb w cid ow descr act dests notifs =
     (case get w cid of
        None \<Rightarrow> (Inl AttributeError, w)
      | Some cert \<Rightarrow>
          (let cert1 = cert\<lparr>owner := ow, active := act, description := descr\<rparr>
           in case update_list cb cert1 ''notifications'' notifs of
                Inl e \<Rightarrow> (Inl e, w)
              | Inr cert2 \<Rightarrow>
                  (case update_list cb cert2 ''destinations'' dests of
                     Inl e \<Rightarrow> (Inl e, w)
                   | Inr cert3 \<Rightarrow>
                       (case database_update w cert3 of (cert4, w') \<Rightarrow> (Inr cert4, w')))))"

text \<open>
  \<^verbatim>\<open>mint(issuer_options)\<close>, with \<^verbatim>\<open>g.user\<close> as an argument. Modelled from the spec: the
  plugin registry's \<^verbatim>\<open>plugins.get\<close>, which fails with \<^verbatim>\<open>UnknownProvider\<close> when no plugin
  has the name. The record is written by \<^verbatim>\<open>database.update\<close> as the last step.
\<close>

definition mint ::
  "collab \<Rightarrow> user \<Rightarrow> pydict \<Rightarrow> world \<Rightarrow> (py_error + (certificate \<times> pem \<times> pem)) \<times> world" where
  "mint cb g_user issuer_options w =
     (case dict_item issuer_options ''authority'' of
        Inl e \<Rightarrow> (Inl e, w)
      | Inr (PAuthority authority) \<Rightarrow>
          (case plugins cb (plugin_name authority) of
             None \<Rightarrow> (Inl (Raised \<lparr>exc_cls = UnknownProvider, exc_attrs = []\<rparr>), w)
           | Some issuer_plugin \<Rightarrow>
               (case create_csr cb issuer_options w of
                  (Inl e, w1) \<Rightarrow> (Inl e, w1)
                | (Inr (csr, key_pem), w1) \<Rightarrow>
                    (let issuer_options' =
                           dict_set issuer_options ''creator'' (PStr (email g_user))
                     in case issuer_plugin csr issuer_options' of
                          Inl e \<Rightarrow> (Inl e, w1)
                        | Inr (cert_body, cert_chain) \<Rightarrow>
                            (let cert = Certificate_init cb cert_body (Some key_pem)
                                          (Some cert_chain);
                                 cert1 = cert\<lparr>cert_user_id := Some (user_id g_user)\<rparr>;
                                 cert2 = cert1\<lparr>cert_authority_id := Some (auth_id authority)\<rparr>
                             in case database_update w1 cert2 of
                                  (cert3, w2) \<Rightarrow> (Inr (cert3, key_pem, cert_chain), w2)))))
      | Inr _ \<Rightarrow> (Inl AttributeError, w))"

text \<open>
  \<^verbatim>\<open>create(**kwargs)\<close>. \<^verbatim>\<open>g.user.certificates.append(cert)\<close> adds the certificate's id to the
  caller's list.
\<close>

definition create ::
  "collab \<Rightarrow> user \<Rightarrow> pydict \<Rightarrow> world \<Rightarrow> (py_error + certificate) \<times> world" where
  "create cb g_user kwargs w =
     (case mint cb g_user kwargs w of
        (Inl e, w1) \<Rightarrow> (Inl e, w1)
      | (Inr (cert, key_pem, cert_chain), w1) \<Rightarrow>
          (case dict_item kwargs ''owner'' of
             Inl e \<Rightarrow> (Inl e, w1)
           | Inr ow \<Rightarrow>
               (case update_list cb (cert\<lparr>owner := ow\<rparr>) ''destinations''
                       (dict_get kwargs ''destinations'') of
                  Inl e \<Rightarrow> (Inl e, w1)
                | Inr cert1 \<Rightarrow>
                    (case database_create w1 cert1 of (cert2, w2) \<Rightarrow>
                       (case dict_item kwargs ''description'' of
                          Inl e \<Rightarrow> (Inl e, w2)
                        | Inr descr \<Rightarrow>
                            (let cert3 = cert2\<lparr>description := descr\<rparr>;
                                 g_user' = g_user\<lparr>user_certificates :=
                                    user_certificates g_user
                                    @ (case cert_id cert3 of None \<Rightarrow> [] | Some i \<Rightarrow> [i])\<rparr>;
                                 w3 = database_update_user w2 g_user'
                             in case update_list cb cert3 ''notifications''
                                       (dict_get kwargs ''notifications'') of
                                  Inl e \<Rightarrow> (Inl e, w3)
                                | Inr cert4 \<Rightarrow>
                                    (case database_update w3 cert4 of
                                       (cert5, w4) \<Rightarrow> (Inr cert5, w4))))))))"


section \<open>certificates/service.py: stats\<close>

text \<open>
  \<^verbatim>\<open>getattr(Certificate, metric)\<close>: the column of that name as a function of the row;
  \<^verbatim>\<open>AttributeError\<close> for a name that is no column, \<^verbatim>\<open>TypeError\<close> for a name that is no
  string. The columns are the fields of the certificate record.
\<close>

definition opt_val :: "('a \<Rightarrow> pyval) \<Rightarrow> 'a option \<Rightarrow> pyval" where
  "opt_val f x = (case x of None \<Rightarrow> PNone | Some v \<Rightarrow> f v)"

text \<open>The value of a column in a row: a plain value, or the PEM data of the three PEM columns.\<close>

datatype column_value = Plain pyval | Pem "pem option"

fun is_null :: "column_value \<Rightarrow> bool" where
  "is_null (Plain v) = (v = PNone)"
| "is_null (Pem x) = (x = None)"

definition Certificate_columns :: "(string \<times> (certificate \<Rightarrow> column_value)) list" where
  "Certificate_columns =
     [(''id'', \<lambda>c. Plain (opt_val (\<lambda>i. PInt (int i)) (cert_id c))),
      (''name'', \<lambda>c. Plain (PStr (cert_name c))),
      (''body'', \<lambda>c. Pem (Some (body c))),
      (''private_key'', \<lambda>c. Pem (private_key c)),
      (''chain'', \<lambda>c. Pem (chain c)),
      (''issuer'', \<lambda>c. Plain (opt_val PStr (issuer c))),
      (''not_before'', \<lambda>c. Plain (opt_val PInt (not_before c))),
      (''not_after'', \<lambda>c. Plain (opt_val PInt (not_after c))),
      (''owner'', \<lambda>c. Plain (owner c)),
      (''active'', \<lambda>c. Plain (PBool (active c))),
      (''description'', \<lambda>c. Plain (description c)),
      (''user_id'', \<lambda>c. Plain (opt_val (\<lambda>i. PInt (int i)) (cert_user_id c))),
      (''authority_id'', \<lambda>c. Plain (opt_val (\<lambda>i. PInt (int i)) (cert_authority_id c)))]"

fun Certificate_getattr :: "pyval \<Rightarrow> py_error + (certificate \<Rightarrow> column_value)" where
  "Certificate_getattr (PStr nm) =
     (case map_of Certificate_columns nm of None \<Rightarrow> Inl AttributeError | Some f \<Rightarrow> Inr f)"
| "Certificate_getattr _ = Inl TypeError"

text \<open>
  \<^verbatim>\<open>query(key, func.count(col)).group_by(key).all()\<close>: one item per value of \<open>key\<close>, in the
  order of first occurrence, with the number of its rows whose \<open>col\<close> is not \<^verbatim>\<open>NULL\<close>.
\<close>

definition group_count ::
  "(certificate \<Rightarrow> column_value) \<Rightarrow> (certificate \<Rightarrow> column_value) \<Rightarrow> certificate list
     \<Rightarrow> (column_value \<times> nat) list" where
  "group_count key col rows =
     map (\<lambda>k. (k, length (filter (\<lambda>c. key c = k \<and> \<not> is_null (col c)) rows)))
       (rev (remdups (rev (map key rows))))"

text \<open>The dictionary \<^verbatim>\<open>{'labels': keys, 'values': values}\<close> that \<^verbatim>\<open>stats\<close> returns.\<close>

record stats_result =
  result_labels :: "column_value list"
  result_values :: "nat list"

text \<open>
  \<^verbatim>\<open>stats(**kwargs)\<close>, with the clock (\<^verbatim>\<open>arrow.utcnow()\<close>) as an argument. The query
  \<open>query2\<close> that the first two \<^verbatim>\<open>if\<close>s build is not read again: both branches start from a
  new \<^verbatim>\<open>database.db.session.query\<close>.
\<close>

definition stats :: "collab \<Rightarrow> world \<Rightarrow> int \<Rightarrow> pydict \<Rightarrow> py_error + stats_result" where
  "stats cb w utcnow kwargs =
     (let query = db_certificates w;
          query1 = (if dict_get kwargs ''active'' = PStr ''true''
                    then filter (\<lambda>c. elb_listeners c \<noteq> []) query else query);
          query2 = (if truthy (dict_get kwargs ''destination_id'')
                    then filter (any_destination cb (dict_get kwargs ''destination_id'')) query1
                    else query1)
      in case
           (if dict_get kwargs ''metric'' = PStr ''not_after'' then
              (let start = utcnow;
                   end = start + weeks 32
               in Inr (group_count (\<lambda>c. Plain (opt_val PStr (issuer c)))
                         (\<lambda>c. Plain (opt_val (\<lambda>i. PInt (int i)) (cert_id c)))
                         (filter (\<lambda>c. case not_after c of None \<Rightarrow> False
                                       | Some t \<Rightarrow> t \<ge> format_date start)
                            (filter (\<lambda>c. case not_after c of None \<Rightarrow> False
                                          | Some t \<Rightarrow> t \<le> format_date end)
                               (db_certificates w)))))
            else
              (case Certificate_getattr (dict_get kwargs ''metric'') of
                 Inl e \<Rightarrow> Inl e
               | Inr attr \<Rightarrow>
                   (let query3 = db_certificates w;
                        query4 = (if dict_get kwargs ''active'' = PStr ''true''
                                  then filter (\<lambda>c. elb_listeners c \<noteq> []) query3 else query3)
                    in Inr (group_count attr attr query4))))
         of
           Inl e \<Rightarrow> Inl e
         | Inr items \<Rightarrow> Inr \<lparr>result_labels = map fst items, result_values = map snd items\<rparr>)"


section \<open>A sample installation\<close>

text \<open>
  One concrete choice of the collaborators and of the database, on which the service can
  be run: \<^verbatim>\<open>ILIKE\<close> as case-insensitive matching with the wildcards \<^verbatim>\<open>%\<close> and \<^verbatim>\<open>_\<close>, a
  column comparison that reads a decimal string as a number, paging that returns every
  row, a generic filter over the fields \<^verbatim>\<open>name\<close> and \<^verbatim>\<open>owner\<close>, one issuer plugin, and one
  fixed text for every object.
\<close>

definition lower_char :: "char \<Rightarrow> char" where
  "lower_char c =
     (case map_of (zip ''ABCDEFGHIJKLMNOPQRSTUVWXYZ'' ''abcdefghijklmnopqrstuvwxyz'') c of
        None \<Rightarrow> c
      | Some l \<Rightarrow> l)"

fun like_match :: "string \<Rightarrow> string \<Rightarrow> bool" where
  "like_match [] s = (s = [])"
| "like_match (p # ps) [] = (p = CHR ''%'' \<and> like_match ps [])"
| "like_match (p # ps) (c # cs) =
     (if p = CHR ''%'' then like_match ps (c # cs) \<or> like_match (p # ps) cs
      else (p = CHR ''_'' \<or> p = c) \<and> like_match ps cs)"

definition sample_ilike :: "string \<Rightarrow> string \<Rightarrow> bool" where
  "sample_ilike v pat = like_match (map lower_char pat) (map lower_char v)"

definition is_digit :: "char \<Rightarrow> bool" where
  "is_digit c = (c \<in> set ''0123456789'')"

definition digit_val :: "char \<Rightarrow> nat" where
  "digit_val c = (case map_of (zip ''0123456789'' [0, 1, 2, 3, 4, 5, 6, 7, 8, 9]) c of
                    None \<Rightarrow> 0 | Some n \<Rightarrow> n)"

definition parse_nat :: "string \<Rightarrow> nat option" where
  "parse_nat s = (if s \<noteq> [] \<and> list_all is_digit s
                  then Some (foldl (\<lambda>acc c. acc * 10 + digit_val c) 0 s) else None)"

fun sample_col_eq :: "pyval \<Rightarrow> pyval \<Rightarrow> bool" where
  "sample_col_eq (PInt i) (PStr s) = (case parse_nat s of None \<Rightarrow> False | Some n \<Rightarrow> i = int n)"
| "sample_col_eq (PBool b) (PStr s) = (s = (if b then ''true'' else ''false''))"
| "sample_col_eq a b = (a = b)"

definition sample_sort_and_page :: "certificate list \<Rightarrow> pydict \<Rightarrow> py_error + page" where
  "sample_sort_and_page q args = Inr \<lparr>page_items = q, page_total = length q\<rparr>"

definition sample_filter :: "certificate list \<Rightarrow> string list \<Rightarrow> py_error + certificate list" where
  "sample_filter q terms =
     (case list_item terms 0 of Inl e \<Rightarrow> Inl e | Inr f \<Rightarrow>
      if f = ''name'' then
        (case list_item terms 1 of Inl e \<Rightarrow> Inl e | Inr v \<Rightarrow>
           Inr (filter (\<lambda>c. sample_ilike (cert_name c) (like_pattern v)) q))
      else if f = ''owner'' then
        (case list_item terms 1 of Inl e \<Rightarrow> Inl e | Inr v \<Rightarrow>
           Inr (filter (\<lambda>c. case owner c of PStr ow \<Rightarrow> sample_ilike ow (like_pattern v)
                            | _ \<Rightarrow> False) q))
      else Inl (Raised \<lparr>exc_cls = AttrNotFound, exc_attrs = [(''field'', f)]\<rparr>))"

definition sample_plugins :: "string \<Rightarrow> (pem \<Rightarrow> pydict \<Rightarrow> py_error + (pem \<times> pem)) option" where
  "sample_plugins nm =
     (if nm = ''test-issuer''
      then Some (\<lambda>csr opts. Inr (PemText ''BODY'', PemText ''CHAIN''))
      else None)"

definition sample_collab :: collab where
  "sample_collab = \<lparr>ilike = sample_ilike, col_eq = sample_col_eq,
     sort_and_page = sample_sort_and_page, database_filter = sample_filter,
     update_list = update_list_reconcile, plugins = sample_plugins,
     parse_body = (\<lambda>b. (''minted'', Some ''Test CA'', None, None)),
     object_text = (\<lambda>v. ''<object>'')\<rparr>"

definition blank_certificate :: certificate where
  "blank_certificate = \<lparr>cert_id = None, cert_name = [], body = PemText [], private_key = None,
     chain = None, issuer = None, not_before = None, not_after = None, owner = PNone,
     active = True, description = PNone, cert_user_id = None, cert_authority_id = None,
     destinations = [], notifications = [], elb_listeners = []\<rparr>"

definition cert_a :: certificate where
  "cert_a = blank_certificate\<lparr>cert_id := Some 1, cert_name := ''issuer-test'',
      issuer := Some ''CA-A'', owner := PStr ''alice'', cert_user_id := Some 7,
      destinations := [1]\<rparr>"

definition cert_b :: certificate where
  "cert_b = blank_certificate\<lparr>cert_id := Some 2, cert_name := ''www'',
      issuer := Some ''Issuer Corp'', owner := PStr ''bob'', cert_user_id := Some 8\<rparr>"

definition sample_authority :: authority where
  "sample_authority = \<lparr>auth_id = 5, auth_name = ''Test CA'', plugin_name = ''test-issuer''\<rparr>"

definition sample_world :: world where
  "sample_world = \<lparr>db_certificates = [cert_a, cert_b], db_authorities = [sample_authority],
     db_roles = [], db_users = [], next_cert_id = 3, keys_generated = []\<rparr>"

definition sample_user :: user where
  "sample_user = \<lparr>user_id = 7, email = ''alice@example.com'', user_certificates = []\<rparr>"

text \<open>Arguments for \<^verbatim>\<open>render\<close> with the free-text filter \<open>f\<close> and the visibility filter on.\<close>

definition sample_args :: "string \<Rightarrow> pydict" where
  "sample_args f = [(''time_range'', PNone), (''destination_id'', PNone), (''show'', PBool True),
      (''filter'', PStr f), (''count'', PInt 10)]"

text \<open>A complete subject for \<^verbatim>\<open>create_csr\<close>, under the keys that it reads.\<close>

definition sample_subject :: pydict where
  "sample_subject =
     [(''commonName'', PStr ''www.example.com''), (''organization'', PStr ''Example''),
      (''organizationalUnit'', PStr ''Ops''), (''country'', PStr ''US''),
      (''state'', PStr ''CA''), (''location'', PStr ''Los Gatos'')]"

text \<open>Arguments for \<^verbatim>\<open>create\<close>: no destination list and no notification list.\<close>

definition sample_kwargs :: pydict where
  "sample_kwargs = sample_subject @
     [(''authority'', PAuthority sample_authority), (''owner'', PStr ''alice''),
      (''description'', PStr ''web'')]"


section \<open>The exception classes\<close>


text \<open>
  C7, as stated, fails: constructing \<^verbatim>\<open>UnknownProvider\<close>, which derives from \<^verbatim>\<open>Exception\<close>
  and not from \<^verbatim>\<open>LemurException\<close>, leaves the log empty.
\<close>

theorem C7_unknown_provider_not_logged:
  "construct UnknownProvider [] [] = Inr (\<lparr>exc_cls = UnknownProvider, exc_attrs = []\<rparr>, [])"
  by (simp add: construct_def resolve_init_def Exception_init_def)

text \<open>
  C7, amended: an instance of \<^verbatim>\<open>LemurException\<close>, \<^verbatim>\<open>InvalidListener\<close> or
  \<^verbatim>\<open>IssuerPaymentRequired\<close> is appended to the log by its construction, whatever the caller
  does with it afterwards; constructing \<^verbatim>\<open>InvalidConfiguration\<close>, \<^verbatim>\<open>InvalidAuthority\<close> or
  \<^verbatim>\<open>UnknownProvider\<close>, which derive from \<^verbatim>\<open>Exception\<close> directly, leaves the log as it was.
\<close>

theorem C7_logged_at_construction:
  "construct LemurException args lg =
     Inr (\<lparr>exc_cls = LemurException, exc_attrs = []\<rparr>,
          lg @ [\<lparr>exc_cls = LemurException, exc_attrs = []\<rparr>])
   \<and> construct InvalidListener args lg =
     Inr (\<lparr>exc_cls = InvalidListener, exc_attrs = []\<rparr>,
          lg @ [\<lparr>exc_cls = InvalidListener, exc_attrs = []\<rparr>])
   \<and> construct IssuerPaymentRequired [message] lg =
     Inr (\<lparr>exc_cls = IssuerPaymentRequired, exc_attrs = [(''message'', message)]\<rparr>,
          lg @ [\<lparr>exc_cls = IssuerPaymentRequired, exc_attrs = [(''message'', message)]\<rparr>])
   \<and> construct InvalidConfiguration args lg =
     Inr (\<lparr>exc_cls = InvalidConfiguration, exc_attrs = []\<rparr>, lg)
   \<and> construct InvalidAuthority args lg =
     Inr (\<lparr>exc_cls = InvalidAuthority, exc_attrs = []\<rparr>, lg)
   \<and> construct UnknownProvider args lg =
     Inr (\<lparr>exc_cls = UnknownProvider, exc_attrs = []\<rparr>, lg)"
  by (simp add: construct_def resolve_init_def Exception_init_def
        LemurException_init_def set_attr_def)

section \<open>render\<close>

lemma map_of_dict_del: "k' \<noteq> k \<Longrightarrow> map_of (dict_del k d) k' = map_of d k'"
  by (induction d) (auto simp: dict_del_def)

lemma dict_del_absent: "map_of d k = None \<Longrightarrow> dict_del k d = d"
  by (induction d) (auto simp: dict_del_def split: if_splits)

text \<open>
  When the four keys that \<^verbatim>\<open>render\<close> pops without a default are present, the pops succeed
  and \<^verbatim>\<open>render\<close> is the free-text stage followed by the other filters.
\<close>

lemma render_pops:
  assumes "map_of args ''time_range'' = Some tr"
    and "map_of args ''destination_id'' = Some d"
    and "map_of args ''show'' = Some sh"
    and "map_of args ''filter'' = Some filt"
  shows "render cb w u now args =
     (let n = dict_get args ''notification_id'';
          rest = dict_del ''filter'' (dict_del ''show'' (dict_del ''notification_id''
                   (dict_del ''destination_id'' (dict_del ''time_range'' args))))
      in case render_filter cb w (db_certificates w) filt rest of
        Inl e \<Rightarrow> Inl e
      | Inr (Return p) \<Rightarrow> Inr p
      | Inr (Continue query1) \<Rightarrow>
          (let query2 = render_show w u sh query1;
               query3 = (if truthy d
                         then filter (any_destination cb d) query2 else query2);
               query4 = (if truthy n
                         then filter (any_notification cb n) query3 else query3)
           in case render_time_range now tr query4 of
                Inl e \<Rightarrow> Inl e
              | Inr query5 \<Rightarrow> sort_and_page cb query5 rest))"
  using assms
  by (cases "map_of args ''notification_id''")
     (simp_all add: render_def dict_pop_def dict_pop_default_def dict_get_def map_of_dict_del
        dict_del_absent Let_def)

text \<open>
  C4: when the free-text filter has \<^verbatim>\<open>issuer\<close> among its terms, \<^verbatim>\<open>render\<close> is the paging
  of the issuer query alone: the certificates whose raw issuer matches the second term,
  or whose authority is one whose name matches it. The values of \<^verbatim>\<open>show\<close>,
  \<^verbatim>\<open>destination_id\<close>, \<^verbatim>\<open>notification_id\<close> and \<^verbatim>\<open>time_range\<close> play no part in the result.
  (With no second term the read of the value raises, see C10.)
\<close>

theorem C4_issuer_short_circuit:
  assumes "map_of args ''time_range'' = Some tr"
    and "map_of args ''destination_id'' = Some d"
    and "map_of args ''show'' = Some sh"
    and "map_of args ''filter'' = Some (PStr s)"
    and "''issuer'' \<in> set (split_on CHR '';'' s)"
  shows "render cb w u now args =
     (case list_item (split_on CHR '';'' s) 1 of
        Inl e \<Rightarrow> Inl e
      | Inr v \<Rightarrow>
          sort_and_page cb
            (filter (\<lambda>c.
                (\<exists>i. issuer c = Some i \<and> ilike cb i (CHR ''%'' # v @ [CHR ''%'']))
                \<or> (\<exists>a \<in> set (db_authorities w).
                      cert_authority_id c = Some (auth_id a)
                      \<and> ilike cb (auth_name a) (CHR ''%'' # v @ [CHR ''%''])))
              (db_certificates w))
            (dict_del ''filter'' (dict_del ''show'' (dict_del ''notification_id''
               (dict_del ''destination_id'' (dict_del ''time_range'' args))))))"
proof -
  have ne: "s \<noteq> []" using assms(5) by (cases s) auto
  have iq: "issuer_query cb w q v =
      filter (\<lambda>c.
                (\<exists>i. issuer c = Some i \<and> ilike cb i (CHR ''%'' # v @ [CHR ''%'']))
                \<or> (\<exists>a \<in> set (db_authorities w).
                      cert_authority_id c = Some (auth_id a)
                      \<and> ilike cb (auth_name a) (CHR ''%'' # v @ [CHR ''%''])))
              q" for q v
    unfolding issuer_query_def Let_def like_pattern_def
    by (rule filter_cong) (auto split: option.splits)
  show ?thesis
    using assms(5) ne
    by (simp add: render_pops [OF assms(1-4)] render_filter_def Let_def iq
          split: sum.splits)
qed

text \<open>
  The caller has id 7 and asks for the visibility filter; the certificate found belongs to
  user 8.
\<close>

theorem C4_issuer_short_circuit_witness:
  "render sample_collab sample_world sample_user 0 (sample_args ''issuer;corp'')
     = Inr \<lparr>page_items = [cert_b], page_total = 1\<rparr>"
  using C4_issuer_short_circuit
          [of "sample_args ''issuer;corp''" PNone PNone "PBool True" "''issuer;corp''"
              sample_collab sample_world sample_user 0]
  by (simp add: sample_args_def list_item_def sample_collab_def sample_sort_and_page_def
        sample_world_def sample_authority_def cert_a_def cert_b_def blank_certificate_def
        sample_ilike_def lower_char_def)

text \<open>
  C5, as stated, fails: the leading term of \<^verbatim>\<open>name;issuer\<close> is \<^verbatim>\<open>name\<close>, which is no
  special term, and the generic filter on it would select the certificate named
  \<^verbatim>\<open>issuer-test\<close>; \<^verbatim>\<open>render\<close> runs the issuer query with the value \<^verbatim>\<open>issuer\<close> instead and
  returns the certificate issued by \<^verbatim>\<open>Issuer Corp\<close>.
\<close>

theorem C5_leading_term_counterexample:
  "render_filter sample_collab sample_world [cert_a, cert_b] (PStr ''name;issuer'') []
     = Inr (Return \<lparr>page_items = [cert_b], page_total = 1\<rparr>)
   \<and> database_filter sample_collab [cert_a, cert_b] (split_on CHR '';'' ''name;issuer'')
     = Inr [cert_a]"
  by (simp add: render_filter_def issuer_query_def list_item_def sample_collab_def
        sample_sort_and_page_def sample_filter_def like_pattern_def
        sample_world_def sample_authority_def cert_a_def cert_b_def blank_certificate_def
        sample_ilike_def lower_char_def)

text \<open>
  A term of the list is a substring of the filter string, so the code's test for \<^verbatim>\<open>active\<close>
  (made on the whole string) succeeds whenever \<^verbatim>\<open>active\<close> is a term.
\<close>

lemma split_on_ne: "split_on sep s \<noteq> []"
  by (induction s) (auto split: list.splits)

lemma split_on_head_prefix:
  "split_on sep s = t # ts \<Longrightarrow> take (length t) s = t"
proof (induction s arbitrary: t ts)
  case Nil
  then show ?case by simp
next
  case (Cons c cs)
  show ?case
  proof (cases "c = sep")
    case True
    with Cons.prems show ?thesis by auto
  next
    case False
    then obtain u us where u: "split_on sep cs = u # us"
      by (cases "split_on sep cs") (auto simp: split_on_ne)
    with Cons.prems False have "t = c # u" by simp
    with Cons.IH [OF u] show ?thesis by simp
  qed
qed

lemma term_is_substring: "t \<in> set (split_on sep s) \<Longrightarrow> is_substring t s"
proof (induction s arbitrary: t)
  case Nil
  then show ?case by simp
next
  case (Cons c cs)
  obtain u us where u: "split_on sep cs = u # us"
    by (cases "split_on sep cs") (auto simp: split_on_ne)
  show ?case
  proof (cases "c = sep")
    case True
    with Cons.prems have "t = [] \<or> t \<in> set (split_on sep cs)" by auto
    then show ?thesis using Cons.IH by auto
  next
    case False
    with Cons.prems u have "t = c # u \<or> t \<in> set us" by auto
    then show ?thesis
    proof
      assume t: "t = c # u"
      have "take (length u) cs = u" by (rule split_on_head_prefix [OF u])
      with t show ?thesis by simp
    next
      assume "t \<in> set us"
      with u have "t \<in> set (split_on sep cs)" by simp
      then have "is_substring t cs" by (rule Cons.IH)
      then show ?thesis by simp
    qed
  qed
qed

text \<open>
  C5, amended: for a non-empty filter string with the semicolon-delimited terms \<open>ts\<close>, a
  recognized term selects its handling wherever it stands in the list: the issuer query
  when \<^verbatim>\<open>issuer\<close> is a term; else the destination membership filter when \<^verbatim>\<open>destination\<close> is
  a term; else the comparison of the \<^verbatim>\<open>active\<close> column with the literal value when
  \<^verbatim>\<open>active\<close> is a term. In the three cases the value is the second term of the list, and
  its read raises \<^verbatim>\<open>IndexError\<close> when there is none. A filter in which neither \<^verbatim>\<open>issuer\<close>
  nor \<^verbatim>\<open>destination\<close> is a term and \<^verbatim>\<open>active\<close> does not occur goes to the generic
  per-field filter. (Nothing is said of a filter in which \<^verbatim>\<open>active\<close> occurs only inside
  another term.)
\<close>

theorem C5_filter_selection:
  assumes "s \<noteq> []"
    and "split_on CHR '';'' s = ts"
  shows "(''issuer'' \<in> set ts \<longrightarrow>
            render_filter cb w query (PStr s) args =
              (case list_item ts 1 of
                 Inl e \<Rightarrow> Inl e
               | Inr v \<Rightarrow>
                   map_sum id Return
                     (sort_and_page cb
                        (filter (\<lambda>c.
                            (\<exists>i. issuer c = Some i \<and> ilike cb i (CHR ''%'' # v @ [CHR ''%'']))
                            \<or> (\<exists>a \<in> set (db_authorities w).
                                  cert_authority_id c = Some (auth_id a)
                                  \<and> ilike cb (auth_name a) (CHR ''%'' # v @ [CHR ''%''])))
                          query)
                        args)))
       \<and> (''issuer'' \<notin> set ts \<and> ''destination'' \<in> set ts \<longrightarrow>
            render_filter cb w query (PStr s) args =
              (case list_item ts 1 of
                 Inl e \<Rightarrow> Inl e
               | Inr v \<Rightarrow>
                   Inr (Continue
                     (filter (\<lambda>c. \<exists>d \<in> set (destinations c). col_eq cb (PInt (int d)) (PStr v))
                        query))))
       \<and> (''issuer'' \<notin> set ts \<and> ''destination'' \<notin> set ts \<and> ''active'' \<in> set ts \<longrightarrow>
            render_filter cb w query (PStr s) args =
              (case list_item ts 1 of
                 Inl e \<Rightarrow> Inl e
               | Inr v \<Rightarrow>
                   Inr (Continue (filter (\<lambda>c. col_eq cb (PBool (active c)) (PStr v)) query))))
       \<and> (''issuer'' \<notin> set ts \<and> ''destination'' \<notin> set ts \<and> \<not> is_substring ''active'' s \<longrightarrow>
            render_filter cb w query (PStr s) args =
              map_sum id Continue (database_filter cb query ts))"
proof -
  have iq: "issuer_query cb w q v =
      filter (\<lambda>c.
                (\<exists>i. issuer c = Some i \<and> ilike cb i (CHR ''%'' # v @ [CHR ''%'']))
                \<or> (\<exists>a \<in> set (db_authorities w).
                      cert_authority_id c = Some (auth_id a)
                      \<and> ilike cb (auth_name a) (CHR ''%'' # v @ [CHR ''%''])))
              q" for q v
    unfolding issuer_query_def Let_def like_pattern_def
    by (rule filter_cong) (auto split: option.splits)
  have ad: "any_destination cb v = (\<lambda>c. \<exists>d \<in> set (destinations c). col_eq cb (PInt (int d)) v)"
    for v
    by (rule ext) (simp add: any_destination_def list_ex_iff)
  have act: "''active'' \<in> set ts \<Longrightarrow> is_substring ''active'' s"
    using term_is_substring [of "''active''" "CHR '';''" s] assms(2) by simp
  show ?thesis
    using assms act
    by (auto simp: render_filter_def Let_def iq ad split: sum.splits)
qed

text \<open>
  On the sample rows: \<^verbatim>\<open>destination;1\<close> keeps the certificate of destination 1,
  \<^verbatim>\<open>active;true\<close> keeps both active certificates, and \<^verbatim>\<open>name;www\<close> goes to the generic
  filter on the name.
\<close>

theorem C5_filter_selection_witness:
  "render_filter sample_collab sample_world [cert_a, cert_b] (PStr ''destination;1'') []
     = Inr (Continue [cert_a])
   \<and> render_filter sample_collab sample_world [cert_a, cert_b] (PStr ''active;true'') []
     = Inr (Continue [cert_a, cert_b])
   \<and> render_filter sample_collab sample_world [cert_a, cert_b] (PStr ''name;www'') []
     = Inr (Continue [cert_b])"
  using C5_filter_selection
          [of "''destination;1''" "[''destination'', ''1'']"
              sample_collab sample_world "[cert_a, cert_b]" "[]"]
        C5_filter_selection
          [of "''active;true''" "[''active'', ''true'']"
              sample_collab sample_world "[cert_a, cert_b]" "[]"]
        C5_filter_selection
          [of "''name;www''" "[''name'', ''www'']"
              sample_collab sample_world "[cert_a, cert_b]" "[]"]
  by (simp add: list_item_def sample_collab_def sample_filter_def like_pattern_def
        sample_ilike_def lower_char_def parse_nat_def is_digit_def digit_val_def
        cert_a_def cert_b_def blank_certificate_def)

text \<open>
  C10: a filter that is the single term \<^verbatim>\<open>issuer\<close> or the single term \<^verbatim>\<open>destination\<close> makes
  \<^verbatim>\<open>render\<close> raise \<^verbatim>\<open>IndexError\<close>, which is no error of \<^verbatim>\<open>exceptions.py\<close>.
\<close>

theorem C10_single_term_index_error:
  assumes "map_of args ''time_range'' = Some tr"
    and "map_of args ''destination_id'' = Some d"
    and "map_of args ''show'' = Some sh"
    and "map_of args ''filter'' = Some (PStr s)"
    and "s = ''issuer'' \<or> s = ''destination''"
  shows "render cb w u now args = Inl IndexError"
  using assms(5)
  by (auto simp: render_pops [OF assms(1-4)] render_filter_def list_item_def)

theorem C10_single_term_index_error_witness:
  "render sample_collab sample_world sample_user 0 (sample_args ''issuer'') = Inl IndexError
   \<and> render sample_collab sample_world sample_user 0 (sample_args ''destination'')
       = Inl IndexError"
  using C10_single_term_index_error
          [of "sample_args ''issuer''" PNone PNone "PBool True" "''issuer''"
              sample_collab sample_world sample_user 0]
        C10_single_term_index_error
          [of "sample_args ''destination''" PNone PNone "PBool True" "''destination''"
              sample_collab sample_world sample_user 0]
  by (simp add: sample_args_def)

section \<open>The request builder\<close>

lemma add_extension_subject:
  "add_extension b ext crit = Inr b' \<Longrightarrow> b_subject b' = b_subject b"
  by (auto simp: add_extension_def split: if_splits)

lemma extensions_loop_subject:
  "extensions_loop exts b = Inr b' \<Longrightarrow> b_subject b' = b_subject b"
proof (induction exts arbitrary: b)
  case Nil
  then show ?case by simp
next
  case (Cons kv exts)
  obtain k v where kv: "kv = (k, v)" by (cases kv)
  show ?case
  proof (cases "k = ''subAltNames''")
    case True
    with Cons.prems kv obtain b1 gns where
      a: "add_extension b (SubjectAlternativeName gns) True = Inr b1" and
      l: "extensions_loop exts b1 = Inr b'"
      by (auto split: sum.splits)
    from Cons.IH [OF l] add_extension_subject [OF a] show ?thesis by simp
  next
    case False
    with Cons.prems kv have "extensions_loop exts b = Inr b'" by simp
    then show ?thesis by (rule Cons.IH)
  qed
qed

lemma subject_name_present:
  assumes "map_of cfg ''commonName'' = Some cn"
    and "map_of cfg ''organization'' = Some org"
    and "map_of cfg ''organizationalUnit'' = Some ou"
    and "map_of cfg ''country'' = Some co"
    and "map_of cfg ''state'' = Some st"
    and "map_of cfg ''location'' = Some loc"
  shows "subject_name cb cfg =
     Inr [(OID_COMMON_NAME, unicode cb cn), (OID_ORGANIZATION_NAME, unicode cb org),
          (OID_ORGANIZATIONAL_UNIT_NAME, unicode cb ou), (OID_COUNTRY_NAME, unicode cb co),
          (OID_STATE_OR_PROVINCE_NAME, unicode cb st), (OID_LOCALITY_NAME, unicode cb loc)]"
  using assms by (simp add: subject_name_def dict_item_def)

text \<open>The key that the next call of \<^verbatim>\<open>create_csr\<close> generates in state \<open>w\<close>.\<close>

lemma create_csr_state:
  "snd (create_csr cb cfg w) =
     w\<lparr>keys_generated := keys_generated w
          @ [\<lparr>public_exponent = 65537, key_size = 2048,
               key_serial = length (keys_generated w)\<rparr>]\<rparr>"
  by (simp add: create_csr_def generate_private_key_def Let_def)

text \<open>
  C2, as stated, fails: without \<^verbatim>\<open>commonName\<close> the call raises \<^verbatim>\<open>KeyError\<close>, not a
  configuration error, and by then a key has been generated.
\<close>

theorem C2_missing_common_name_counterexample:
  "create_csr sample_collab (tl sample_subject) sample_world =
     (Inl (KeyError ''commonName''),
      sample_world\<lparr>keys_generated :=
        [\<lparr>public_exponent = 65537, key_size = 2048, key_serial = 0\<rparr>]\<rparr>)"
  by (simp add: create_csr_def generate_private_key_def subject_name_def dict_item_def
        sample_subject_def sample_world_def Let_def)

text \<open>
  C2, amended: when one of the six keys that \<^verbatim>\<open>create_csr\<close> reads is missing, \<open>k\<close> being the
  first missing one in the order of the reads, the call fails with \<^verbatim>\<open>KeyError\<close> on \<open>k\<close>; it
  returns no key, and the state holds one more generated key, of 2048 bits with public
  exponent 65537.
\<close>

theorem C2_missing_attribute_key_error:
  assumes "find (\<lambda>k. map_of cfg k = None)
             [''commonName'', ''organization'', ''organizationalUnit'', ''country'',
              ''state'', ''location''] = Some k"
  shows "create_csr cb cfg w =
     (Inl (KeyError k),
      w\<lparr>keys_generated := keys_generated w
           @ [\<lparr>public_exponent = 65537, key_size = 2048,
                key_serial = length (keys_generated w)\<rparr>]\<rparr>)"
proof -
  have "subject_name cb cfg = Inl (KeyError k)"
    using assms
    by (auto simp: subject_name_def dict_item_def split: if_splits option.splits)
  then have "fst (create_csr cb cfg w) = Inl (KeyError k)"
    by (simp add: create_csr_def split: prod.splits)
  then show ?thesis
    using create_csr_state [of cb cfg w] by (cases "create_csr cb cfg w") simp
qed

theorem C2_missing_attribute_key_error_witness:
  "create_csr sample_collab (butlast sample_subject) sample_world =
     (Inl (KeyError ''location''),
      sample_world\<lparr>keys_generated :=
        [\<lparr>public_exponent = 65537, key_size = 2048, key_serial = 0\<rparr>]\<rparr>)"
  using C2_missing_attribute_key_error
          [of "butlast sample_subject" "''location''" sample_collab sample_world]
  by (simp add: sample_subject_def sample_world_def)

text \<open>
  C3, as stated, fails: a configuration that supplies the six attributes under the names of
  the claim, the locality as \<^verbatim>\<open>locality\<close>, is refused with \<^verbatim>\<open>KeyError\<close>, because the code
  reads the locality under the key \<^verbatim>\<open>location\<close>.
\<close>

theorem C3_locality_key_counterexample:
  "create_csr sample_collab
     (butlast sample_subject @ [(''locality'', PStr ''Los Gatos'')]) sample_world =
     (Inl (KeyError ''location''),
      sample_world\<lparr>keys_generated :=
        [\<lparr>public_exponent = 65537, key_size = 2048, key_serial = 0\<rparr>]\<rparr>)"
  by (simp add: create_csr_def generate_private_key_def subject_name_def dict_item_def
        sample_subject_def sample_world_def Let_def)

text \<open>
  C3, amended: when the configuration supplies \<^verbatim>\<open>commonName\<close>, \<^verbatim>\<open>organization\<close>,
  \<^verbatim>\<open>organizationalUnit\<close>, \<^verbatim>\<open>country\<close>, \<^verbatim>\<open>state\<close> and \<^verbatim>\<open>location\<close> and the loop over the
  requested extensions completes, \<^verbatim>\<open>create_csr\<close> returns a request whose subject is exactly
  six attributes, in the order common name, organization, organizational unit, country,
  state, locality, each holding the text of the value supplied, and the private key that
  signed it, of 2048 bits with public exponent 65537.
\<close>

theorem C3_subject_and_key:
  assumes "map_of cfg ''commonName'' = Some cn"
    and "map_of cfg ''organization'' = Some org"
    and "map_of cfg ''organizationalUnit'' = Some ou"
    and "map_of cfg ''country'' = Some co"
    and "map_of cfg ''state'' = Some st"
    and "map_of cfg ''location'' = Some loc"
    and "dict_get_default cfg ''extensions'' (PDict []) = PDict exts"
    and "extensions_loop exts
           \<lparr>b_subject = [(OID_COMMON_NAME, unicode cb cn),
                         (OID_ORGANIZATION_NAME, unicode cb org),
                         (OID_ORGANIZATIONAL_UNIT_NAME, unicode cb ou),
                         (OID_COUNTRY_NAME, unicode cb co),
                         (OID_STATE_OR_PROVINCE_NAME, unicode cb st),
                         (OID_LOCALITY_NAME, unicode cb loc)],
            b_extensions = [(BasicConstraints False None, True)]\<rparr> = Inr b'"
  shows "\<exists>req key.
           fst (create_csr cb cfg w)
             = Inr (PemCsr req, PemPrivateKey TraditionalOpenSSL NoEncryption key)
           \<and> csr_subject req =
               [(OID_COMMON_NAME, unicode cb cn), (OID_ORGANIZATION_NAME, unicode cb org),
                (OID_ORGANIZATIONAL_UNIT_NAME, unicode cb ou), (OID_COUNTRY_NAME, unicode cb co),
                (OID_STATE_OR_PROVINCE_NAME, unicode cb st), (OID_LOCALITY_NAME, unicode cb loc)]
           \<and> csr_key req = key \<and> csr_hash req = SHA256
           \<and> key_size key = 2048 \<and> public_exponent key = 65537"
  using subject_name_present [OF assms(1-6), of cb] assms(7) assms(8)
        extensions_loop_subject [OF assms(8)]
  by (simp add: create_csr_def generate_private_key_def add_extension_def sign_def Let_def)

text \<open>The organizational unit is given as the number 42; the subject holds its text.\<close>

theorem C3_subject_and_key_witness:
  "\<exists>req key.
     fst (create_csr sample_collab
            [(''commonName'', PStr ''www.example.com''), (''organization'', PStr ''Example''),
             (''organizationalUnit'', PInt 42), (''country'', PStr ''US''),
             (''state'', PStr ''CA''), (''location'', PStr ''Los Gatos'')]
            sample_world)
       = Inr (PemCsr req, PemPrivateKey TraditionalOpenSSL NoEncryption key)
     \<and> csr_subject req =
         [(OID_COMMON_NAME, ''www.example.com''), (OID_ORGANIZATION_NAME, ''Example''),
          (OID_ORGANIZATIONAL_UNIT_NAME, ''42''), (OID_COUNTRY_NAME, ''US''),
          (OID_STATE_OR_PROVINCE_NAME, ''CA''), (OID_LOCALITY_NAME, ''Los Gatos'')]
     \<and> csr_key req = key \<and> csr_hash req = SHA256
     \<and> key_size key = 2048 \<and> public_exponent key = 65537"
  using C3_subject_and_key
          [of "[(''commonName'', PStr ''www.example.com''), (''organization'', PStr ''Example''),
                (''organizationalUnit'', PInt 42), (''country'', PStr ''US''),
                (''state'', PStr ''CA''), (''location'', PStr ''Los Gatos'')]"
              "PStr ''www.example.com''" "PStr ''Example''"
              "PInt 42" "PStr ''US''" "PStr ''CA''" "PStr ''Los Gatos''" "[]"
              sample_collab _ sample_world]
  by (simp add: dict_get_default_def int_text_def decimal.simps)

text \<open>
  The inner loop, when every entry is a dictionary with a \<^verbatim>\<open>nameType\<close>, and with a
  \<^verbatim>\<open>value\<close> if the type is \<^verbatim>\<open>DNSName\<close>: the entries of type \<^verbatim>\<open>DNSName\<close> are kept in order,
  every other entry is skipped.
\<close>

lemma general_names_loop_dns:
  assumes "\<forall>n \<in> set names. \<exists>d t. n = PDict d \<and> map_of d ''nameType'' = Some t
             \<and> (t = PStr ''DNSName'' \<longrightarrow> map_of d ''value'' \<noteq> None)"
  shows "general_names_loop names acc =
     Inr (acc @ map (\<lambda>n. DNSName (case subscript n ''value'' of Inr v \<Rightarrow> v | Inl e \<Rightarrow> PNone))
                  (filter (\<lambda>n. subscript n ''nameType'' = Inr (PStr ''DNSName'')) names))"
  using assms
proof (induction names arbitrary: acc)
  case Nil
  then show ?case by simp
next
  case (Cons n names)
  then obtain d t where n: "n = PDict d" "map_of d ''nameType'' = Some t"
      "t = PStr ''DNSName'' \<longrightarrow> map_of d ''value'' \<noteq> None"
    by auto
  have rest: "\<forall>n \<in> set names. \<exists>d t. n = PDict d \<and> map_of d ''nameType'' = Some t
             \<and> (t = PStr ''DNSName'' \<longrightarrow> map_of d ''value'' \<noteq> None)"
    using Cons.prems by simp
  show ?case
  proof (cases "t = PStr ''DNSName''")
    case True
    with n obtain v where v: "map_of d ''value'' = Some v" by auto
    show ?thesis
      using n True v Cons.IH [OF rest, of "acc @ [DNSName v]"]
      by (simp add: dict_item_def)
  next
    case False
    show ?thesis
      using n False Cons.IH [OF rest, of acc]
      by (simp add: dict_item_def)
  qed
qed

lemma extensions_loop_no_san:
  "''subAltNames'' \<notin> fst ` set exts \<Longrightarrow> extensions_loop exts b = Inr b"
  by (induction exts arbitrary: b) auto

text \<open>
  The outer loop on a dictionary (distinct keys) that holds \<^verbatim>\<open>subAltNames\<close>: the other
  keys are skipped, and the one extension is added.
\<close>

lemma extensions_loop_san:
  assumes "distinct (map fst exts)"
    and "map_of exts ''subAltNames'' = Some v"
    and "subscript v ''names'' = Inr ns"
    and "py_iter ns = Inr names"
    and "general_names_loop names [] = Inr gns"
    and "add_extension b (SubjectAlternativeName gns) True = Inr b'"
  shows "extensions_loop exts b = Inr b'"
  using assms(1,2)
proof (induction exts)
  case Nil
  then show ?case by simp
next
  case (Cons kv exts)
  obtain k x where kv: "kv = (k, x)" by (cases kv)
  show ?case
  proof (cases "k = ''subAltNames''")
    case True
    with Cons.prems kv have x: "x = v" and no: "''subAltNames'' \<notin> fst ` set exts"
      by auto
    show ?thesis
      using kv True x assms(3-6) extensions_loop_no_san [OF no] by simp
  next
    case False
    with Cons.prems kv have "distinct (map fst exts)" "map_of exts ''subAltNames'' = Some v"
      by auto
    then have "extensions_loop exts b = Inr b'" by (rule Cons.IH)
    with kv False show ?thesis by simp
  qed
qed

text \<open>
  C8: for a request that holds subject-alternative names, each entry carrying a
  \<^verbatim>\<open>nameType\<close> (and a \<^verbatim>\<open>value\<close> when the type is \<^verbatim>\<open>DNSName\<close>), \<^verbatim>\<open>create_csr\<close> succeeds and the
  extensions of the request are the basic constraints followed by one critical
  \<^verbatim>\<open>SubjectAlternativeName\<close> that holds the values of the \<^verbatim>\<open>DNSName\<close> entries, in order, and
  nothing of any other entry.
\<close>

theorem C8_dns_names_only:
  assumes "map_of cfg ''commonName'' = Some cn"
    and "map_of cfg ''organization'' = Some org"
    and "map_of cfg ''organizationalUnit'' = Some ou"
    and "map_of cfg ''country'' = Some co"
    and "map_of cfg ''state'' = Some st"
    and "map_of cfg ''location'' = Some loc"
    and "map_of cfg ''extensions'' = Some (PDict exts)"
    and "distinct (map fst exts)"
    and "map_of exts ''subAltNames'' = Some (PDict v)"
    and "map_of v ''names'' = Some (PList names)"
    and "\<forall>n \<in> set names. \<exists>d t. n = PDict d \<and> map_of d ''nameType'' = Some t
           \<and> (t = PStr ''DNSName'' \<longrightarrow> map_of d ''value'' \<noteq> None)"
  shows "\<exists>req key.
           fst (create_csr cb cfg w)
             = Inr (PemCsr req, PemPrivateKey TraditionalOpenSSL NoEncryption key)
           \<and> csr_extensions req =
               [(BasicConstraints False None, True),
                (SubjectAlternativeName
                   (map (\<lambda>n. DNSName (case subscript n ''value'' of Inr v \<Rightarrow> v | Inl e \<Rightarrow> PNone))
                      (filter (\<lambda>n. subscript n ''nameType'' = Inr (PStr ''DNSName'')) names)),
                 True)]"
proof -
  let ?gns = "map (\<lambda>n. DNSName (case subscript n ''value'' of Inr v \<Rightarrow> v | Inl e \<Rightarrow> PNone))
                (filter (\<lambda>n. subscript n ''nameType'' = Inr (PStr ''DNSName'')) names)"
  let ?subj = "[(OID_COMMON_NAME, unicode cb cn), (OID_ORGANIZATION_NAME, unicode cb org),
                (OID_ORGANIZATIONAL_UNIT_NAME, unicode cb ou), (OID_COUNTRY_NAME, unicode cb co),
                (OID_STATE_OR_PROVINCE_NAME, unicode cb st), (OID_LOCALITY_NAME, unicode cb loc)]"
  let ?b = "\<lparr>b_subject = ?subj, b_extensions = [(BasicConstraints False None, True)]\<rparr>"
  let ?b' = "\<lparr>b_subject = ?subj,
              b_extensions = [(BasicConstraints False None, True),
                              (SubjectAlternativeName ?gns, True)]\<rparr>"
  have g: "general_names_loop names [] = Inr ?gns"
    using general_names_loop_dns [OF assms(11), of "[]"] by simp
  have a: "add_extension ?b (SubjectAlternativeName ?gns) True = Inr ?b'"
    by (simp add: add_extension_def)
  have l: "extensions_loop exts ?b = Inr ?b'"
    by (rule extensions_loop_san [where ns = "PList names", OF assms(8) assms(9) _ _ g a])
       (simp_all add: assms(10) dict_item_def)
  show ?thesis
    using subject_name_present [OF assms(1-6), of cb] assms(7) l
    by (simp add: create_csr_def generate_private_key_def add_extension_def sign_def Let_def
          dict_get_default_def)
qed

theorem C8_dns_names_only_witness:
  "\<exists>req key.
     fst (create_csr sample_collab
            (sample_subject @
               [(''extensions'', PDict [(''subAltNames'', PDict [(''names'', PList
                   [PDict [(''nameType'', PStr ''DNSName''), (''value'', PStr ''www.example.com'')],
                    PDict [(''nameType'', PStr ''IPAddress''), (''value'', PStr ''10.0.0.1'')],
                    PDict [(''nameType'', PStr ''DNSName''), (''value'', PStr ''api.example.com'')]])])])])
            sample_world)
       = Inr (PemCsr req, PemPrivateKey TraditionalOpenSSL NoEncryption key)
     \<and> csr_extensions req =
         [(BasicConstraints False None, True),
          (SubjectAlternativeName
             [DNSName (PStr ''www.example.com''), DNSName (PStr ''api.example.com'')], True)]"
  using C8_dns_names_only
          [of "sample_subject @
               [(''extensions'', PDict [(''subAltNames'', PDict [(''names'', PList
                   [PDict [(''nameType'', PStr ''DNSName''), (''value'', PStr ''www.example.com'')],
                    PDict [(''nameType'', PStr ''IPAddress''), (''value'', PStr ''10.0.0.1'')],
                    PDict [(''nameType'', PStr ''DNSName''), (''value'', PStr ''api.example.com'')]])])])]"
              "PStr ''www.example.com''" "PStr ''Example''"
              "PStr ''Ops''" "PStr ''US''" "PStr ''CA''" "PStr ''Los Gatos''"
              "[(''subAltNames'', PDict [(''names'', PList
                   [PDict [(''nameType'', PStr ''DNSName''), (''value'', PStr ''www.example.com'')],
                    PDict [(''nameType'', PStr ''IPAddress''), (''value'', PStr ''10.0.0.1'')],
                    PDict [(''nameType'', PStr ''DNSName''), (''value'', PStr ''api.example.com'')]])])]"
              "[(''names'', PList
                   [PDict [(''nameType'', PStr ''DNSName''), (''value'', PStr ''www.example.com'')],
                    PDict [(''nameType'', PStr ''IPAddress''), (''value'', PStr ''10.0.0.1'')],
                    PDict [(''nameType'', PStr ''DNSName''), (''value'', PStr ''api.example.com'')]])]"
              "[PDict [(''nameType'', PStr ''DNSName''), (''value'', PStr ''www.example.com'')],
                PDict [(''nameType'', PStr ''IPAddress''), (''value'', PStr ''10.0.0.1'')],
                PDict [(''nameType'', PStr ''DNSName''), (''value'', PStr ''api.example.com'')]]"
              sample_collab sample_world]
  by (simp add: sample_subject_def dict_item_def)

section \<open>update\<close>

lemma requested_ids_list_nat: "requested_ids_list (map (\<lambda>d. PInt (int d)) D) = Inr D"
  by (induction D) auto

lemma set_reconcile: "set (reconcile current requested) = set requested"
  by (auto simp: reconcile_def)

lemma reconcile_again:
  "reconcile (reconcile current requested) requested = reconcile current requested"
proof -
  let ?R = "reconcile current requested"
  have keep: "filter (\<lambda>i. i \<in> set requested) ?R = ?R"
    by (rule filter_True) (simp add: set_reconcile)
  have none: "filter (\<lambda>i. i \<notin> set ?R) requested = []"
    by (simp add: set_reconcile)
  have "reconcile ?R requested
          = filter (\<lambda>i. i \<in> set requested) ?R
            @ remdups (filter (\<lambda>i. i \<notin> set ?R) requested)"
    by (simp only: reconcile_def)
  then show ?thesis by (simp only: keep none remdups.simps append_Nil2)
qed

lemma find_replace:
  "\<exists>c \<in> set xs. P c \<Longrightarrow> P x \<Longrightarrow> find P (map (\<lambda>c. if P c then x else c) xs) = Some x"
  by (induction xs) auto

lemma replace_again:
  "P x \<Longrightarrow> map (\<lambda>c. if P c then x else c) (map (\<lambda>c. if P c then x else c) xs)
           = map (\<lambda>c. if P c then x else c) xs"
  by (induction xs) auto

lemma get_SomeD: "get w i = Some cert \<Longrightarrow> cert_id cert = Some i \<and> cert \<in> set (db_certificates w)"
  by (auto simp: get_def database_get_def find_Some_iff)

text \<open>
  C9, with \<^verbatim>\<open>database.update_list\<close> as the specification gives it: for an existing
  certificate and id lists \<open>D\<close> and \<open>N\<close>, \<^verbatim>\<open>update\<close> succeeds, the row read back is the
  certificate returned, its destinations are exactly the set of \<open>D\<close> and its notifications
  exactly the set of \<open>N\<close>, whatever they were before; a second call with the same arguments
  returns the same certificate and leaves the state as the first call left it.
\<close>

theorem C9_update_replaces_associations:
  assumes "get w i = Some cert"
  shows "\<exists>cert' w'.
           update (cb\<lparr>update_list := update_list_reconcile\<rparr>) w i ow descr act
               (PList (map (\<lambda>d. PInt (int d)) D)) (PList (map (\<lambda>n. PInt (int n)) N))
             = (Inr cert', w')
           \<and> get w' i = Some cert'
           \<and> set (destinations cert') = set D
           \<and> set (notifications cert') = set N
           \<and> update (cb\<lparr>update_list := update_list_reconcile\<rparr>) w' i ow descr act
               (PList (map (\<lambda>d. PInt (int d)) D)) (PList (map (\<lambda>n. PInt (int n)) N))
             = (Inr cert', w')"
proof -
  let ?cb = "cb\<lparr>update_list := update_list_reconcile\<rparr>"
  let ?P = "\<lambda>c. cert_id c = Some i"
  let ?c = "cert\<lparr>owner := ow, active := act, description := descr,
                  notifications := reconcile (notifications cert) N,
                  destinations := reconcile (destinations cert) D\<rparr>"
  let ?w = "w\<lparr>db_certificates := map (\<lambda>c. if ?P c then ?c else c) (db_certificates w)\<rparr>"
  from get_SomeD [OF assms] have cid: "cert_id cert = Some i"
    and mem: "cert \<in> set (db_certificates w)" by simp_all
  have first: "update ?cb w i ow descr act
                 (PList (map (\<lambda>d. PInt (int d)) D)) (PList (map (\<lambda>n. PInt (int n)) N))
               = (Inr ?c, ?w)"
    using assms cid
    by (simp add: update_def update_list_reconcile_def requested_ids_list_nat
          database_update_def Let_def)
  have ex: "\<exists>c \<in> set (db_certificates w). ?P c" using cid mem by blast
  have reread: "get ?w i = Some ?c"
    using find_replace [of "db_certificates w" ?P ?c, OF ex] cid
    by (simp add: get_def database_get_def)
  have again: "map (\<lambda>c. if ?P c then ?c else c) (map (\<lambda>c. if ?P c then ?c else c) (db_certificates w))
                 = map (\<lambda>c. if ?P c then ?c else c) (db_certificates w)"
    by (rule replace_again) (simp add: cid)
  have second: "update ?cb ?w i ow descr act
                 (PList (map (\<lambda>d. PInt (int d)) D)) (PList (map (\<lambda>n. PInt (int n)) N))
               = (Inr ?c, ?w)"
    using reread cid again
    by (simp add: update_def update_list_reconcile_def requested_ids_list_nat
          database_update_def reconcile_again Let_def)
  show ?thesis
    using first reread second by (simp add: set_reconcile)
qed

text \<open>
  The first sample certificate has destination 1; after \<^verbatim>\<open>update\<close> with destinations 2, 3
  and notification 4 it has exactly those.
\<close>

theorem C9_update_replaces_associations_witness:
  "get sample_world 1 = Some cert_a
   \<and> (\<exists>cert' w'.
         update (sample_collab\<lparr>update_list := update_list_reconcile\<rparr>) sample_world 1
             (PStr ''carol'') (PStr ''renewed'') True
             (PList (map (\<lambda>d. PInt (int d)) [2, 3])) (PList (map (\<lambda>n. PInt (int n)) [4]))
           = (Inr cert', w')
         \<and> get w' 1 = Some cert'
         \<and> set (destinations cert') = {2, 3}
         \<and> set (notifications cert') = {4}
         \<and> update (sample_collab\<lparr>update_list := update_list_reconcile\<rparr>) w' 1
             (PStr ''carol'') (PStr ''renewed'') True
             (PList (map (\<lambda>d. PInt (int d)) [2, 3])) (PList (map (\<lambda>n. PInt (int n)) [4]))
           = (Inr cert', w'))"
proof -
  have g: "get sample_world 1 = Some cert_a"
    by (simp add: get_def database_get_def sample_world_def cert_a_def blank_certificate_def)
  show ?thesis
    using g C9_update_replaces_associations [OF g, of sample_collab "PStr ''carol''"
                "PStr ''renewed''" True "[2, 3]" "[4]"]
    by simp
qed

section \<open>mint and create\<close>

lemma create_csr_keeps_rows:
  assumes "create_csr cb cfg w = (r, w1)"
  shows "db_certificates w1 = db_certificates w" and "next_cert_id w1 = next_cert_id w"
    and "db_users w1 = db_users w"
  using create_csr_state [of cb cfg w] assms by simp_all

lemma find_appended:
  "\<forall>c \<in> set xs. \<not> P c \<Longrightarrow> P x \<Longrightarrow> find P (xs @ [x]) = Some x"
  by (induction xs) auto

text \<open>
  When the authority is given, its plugin is registered, the request is built and the
  plugin signs it, \<^verbatim>\<open>mint\<close> returns the new certificate and has appended it to the
  persisted rows under the next free id.
\<close>

lemma mint_persists:
  assumes "dict_item kwargs ''authority'' = Inr (PAuthority a)"
    and "plugins cb (plugin_name a) = Some p"
    and "create_csr cb kwargs w = (Inr (csr, key_pem), w1)"
    and "p csr (dict_set kwargs ''creator'' (PStr (email g))) = Inr (cert_body, cert_chain)"
    and "minted = (Certificate_init cb cert_body (Some key_pem) (Some cert_chain))
                    \<lparr>cert_id := Some (next_cert_id w),
                     cert_user_id := Some (user_id g),
                     cert_authority_id := Some (auth_id a)\<rparr>"
  shows "mint cb g kwargs w =
           (Inr (minted, key_pem, cert_chain),
            w1\<lparr>db_certificates := db_certificates w @ [minted],
                next_cert_id := Suc (next_cert_id w)\<rparr>)"
  using assms(1,2,3,4) create_csr_keeps_rows(1,2) [OF assms(3)]
  by (simp add: mint_def assms(5) database_update_def Certificate_init_def Let_def
        split: prod.splits)

text \<open>
  C1: when the signing step succeeds, the certificate is persisted by \<^verbatim>\<open>mint\<close> before
  \<^verbatim>\<open>create\<close> attempts any wiring. If wiring the destinations fails, \<^verbatim>\<open>create\<close> fails with
  that error and the certificate is read back with body, chain, authority and requesting
  user as minted and with no associations. If the destinations are wired and wiring the
  notifications fails, \<^verbatim>\<open>create\<close> fails with that error and the certificate is read back
  with the same body, chain, authority and user, the destinations as wired and no
  notifications.
\<close>

theorem C1_minted_certificate_survives_wiring_failure:
  assumes "dict_item kwargs ''authority'' = Inr (PAuthority a)"
    and "plugins cb (plugin_name a) = Some p"
    and "create_csr cb kwargs w = (Inr (csr, key_pem), w1)"
    and "p csr (dict_set kwargs ''creator'' (PStr (email g))) = Inr (cert_body, cert_chain)"
    and "minted = (Certificate_init cb cert_body (Some key_pem) (Some cert_chain))
                    \<lparr>cert_id := Some (next_cert_id w),
                     cert_user_id := Some (user_id g),
                     cert_authority_id := Some (auth_id a)\<rparr>"
    and "\<forall>c \<in> set (db_certificates w). cert_id c \<noteq> Some (next_cert_id w)"
    and "dict_item kwargs ''owner'' = Inr ow"
  shows "body minted = cert_body \<and> chain minted = Some cert_chain
         \<and> cert_authority_id minted = Some (auth_id a)
         \<and> cert_user_id minted = Some (user_id g)
         \<and> destinations minted = [] \<and> notifications minted = []
         \<and> get (snd (mint cb g kwargs w)) (next_cert_id w) = Some minted
         \<and> (update_list cb (minted\<lparr>owner := ow\<rparr>) ''destinations''
                (dict_get kwargs ''destinations'') = Inl e
              \<longrightarrow> (\<exists>w'. create cb g kwargs w = (Inl e, w')
                         \<and> get w' (next_cert_id w) = Some minted))
         \<and> (update_list cb (minted\<lparr>owner := ow\<rparr>) ''destinations''
                (dict_get kwargs ''destinations'') = Inr (minted\<lparr>owner := ow, destinations := ds\<rparr>)
              \<and> dict_item kwargs ''description'' = Inr descr
              \<and> update_list cb (minted\<lparr>owner := ow, destinations := ds, description := descr\<rparr>)
                   ''notifications'' (dict_get kwargs ''notifications'') = Inl e
              \<longrightarrow> (\<exists>w'. create cb g kwargs w = (Inl e, w')
                         \<and> get w' (next_cert_id w)
                             = Some (minted\<lparr>owner := ow, destinations := ds\<rparr>)))"
proof -
  let ?n = "next_cert_id w"
  let ?P = "\<lambda>c. cert_id c = Some ?n"
  let ?w2 = "w1\<lparr>db_certificates := db_certificates w @ [minted], next_cert_id := Suc ?n\<rparr>"
  have m: "mint cb g kwargs w = (Inr (minted, key_pem, cert_chain), ?w2)"
    by (rule mint_persists [OF assms(1-5)])
  have mid: "cert_id minted = Some ?n" by (simp add: assms(5))
  have fields: "body minted = cert_body \<and> chain minted = Some cert_chain
         \<and> cert_authority_id minted = Some (auth_id a)
         \<and> cert_user_id minted = Some (user_id g)
         \<and> destinations minted = [] \<and> notifications minted = []"
    by (simp add: assms(5) Certificate_init_def split: prod.splits)
  have fresh: "\<forall>c \<in> set (db_certificates w). \<not> ?P c" using assms(6) by simp
  have stored: "get ?w2 ?n = Some minted"
    using find_appended [of "db_certificates w" ?P minted, OF fresh mid]
    by (simp add: get_def database_get_def)
  have dest_fails: "\<exists>w'. create cb g kwargs w = (Inl e, w') \<and> get w' ?n = Some minted"
    if "update_list cb (minted\<lparr>owner := ow\<rparr>) ''destinations''
          (dict_get kwargs ''destinations'') = Inl e"
    using that m assms(7) stored by (simp add: create_def)
  have notif_fails: "\<exists>w'. create cb g kwargs w = (Inl e, w')
        \<and> get w' ?n = Some (minted\<lparr>owner := ow, destinations := ds\<rparr>)"
    if d: "update_list cb (minted\<lparr>owner := ow\<rparr>) ''destinations''
          (dict_get kwargs ''destinations'') = Inr (minted\<lparr>owner := ow, destinations := ds\<rparr>)"
      and de: "dict_item kwargs ''description'' = Inr descr"
      and n: "update_list cb (minted\<lparr>owner := ow, destinations := ds, description := descr\<rparr>)
                ''notifications'' (dict_get kwargs ''notifications'') = Inl e"
  proof -
    let ?c1 = "minted\<lparr>owner := ow, destinations := ds\<rparr>"
    have c1id: "?P ?c1" using mid by simp
    have ex: "\<exists>c \<in> set (db_certificates w @ [minted]). ?P c" using mid by simp
    have f: "find ?P (map (\<lambda>c. if ?P c then ?c1 else c) (db_certificates w @ [minted]))
               = Some ?c1"
      by (rule find_replace [OF ex c1id])
    show ?thesis
      using m assms(7) d de n mid f
      by (simp add: create_def database_create_def database_update_def
            database_update_user_def get_def database_get_def Let_def)
  qed
  show ?thesis
    using fields stored m dest_fails notif_fails by simp
qed

text \<open>
  On the sample installation: without a destination list the wiring of the destinations
  fails, and with one the wiring of the (absent) notification list does; both times the
  certificate signed by the test issuer is in the database under id 3.
\<close>

theorem C1_minted_certificate_survives_wiring_failure_witness:
  "(\<exists>w' c. create sample_collab sample_user sample_kwargs sample_world = (Inl TypeError, w')
        \<and> get w' 3 = Some c
        \<and> body c = PemText ''BODY'' \<and> chain c = Some (PemText ''CHAIN'')
        \<and> cert_authority_id c = Some 5 \<and> cert_user_id c = Some 7
        \<and> destinations c = [] \<and> notifications c = [])
   \<and> (\<exists>w' c. create sample_collab sample_user
                 (sample_kwargs @ [(''destinations'', PList [PInt 1, PInt 2])]) sample_world
               = (Inl TypeError, w')
        \<and> get w' 3 = Some c
        \<and> body c = PemText ''BODY'' \<and> chain c = Some (PemText ''CHAIN'')
        \<and> cert_authority_id c = Some 5 \<and> cert_user_id c = Some 7
        \<and> destinations c = [1, 2] \<and> notifications c = [])"
proof -
  let ?K1 = "sample_kwargs"
  let ?K2 = "sample_kwargs @ [(''destinations'', PList [PInt 1, PInt 2])]"
  have fresh: "\<forall>c \<in> set (db_certificates sample_world).
                 cert_id c \<noteq> Some (next_cert_id sample_world)"
    by (simp add: sample_world_def cert_a_def cert_b_def blank_certificate_def)
  have n: "next_cert_id sample_world = 3" by (simp add: sample_world_def)
  have "\<exists>csr key_pem w1. create_csr sample_collab ?K1 sample_world = (Inr (csr, key_pem), w1)"
    by (simp add: create_csr_def generate_private_key_def sample_kwargs_def
          subject_name_def dict_item_def dict_get_default_def add_extension_def
          sample_subject_def Let_def)
  then obtain csr1 key1 w1 where
    c1: "create_csr sample_collab ?K1 sample_world = (Inr (csr1, key1), w1)" by blast
  have "\<exists>csr key_pem w1. create_csr sample_collab ?K2 sample_world = (Inr (csr, key_pem), w1)"
    by (simp add: create_csr_def generate_private_key_def sample_kwargs_def
          subject_name_def dict_item_def dict_get_default_def add_extension_def
          sample_subject_def Let_def)
  then obtain csr2 key2 w2 where
    c2: "create_csr sample_collab ?K2 sample_world = (Inr (csr2, key2), w2)" by blast
  let ?m1 = "(Certificate_init sample_collab (PemText ''BODY'') (Some key1)
                (Some (PemText ''CHAIN'')))
              \<lparr>cert_id := Some (next_cert_id sample_world),
               cert_user_id := Some (user_id sample_user),
               cert_authority_id := Some (auth_id sample_authority)\<rparr>"
  let ?m2 = "(Certificate_init sample_collab (PemText ''BODY'') (Some key2)
                (Some (PemText ''CHAIN'')))
              \<lparr>cert_id := Some (next_cert_id sample_world),
               cert_user_id := Some (user_id sample_user),
               cert_authority_id := Some (auth_id sample_authority)\<rparr>"
  have plug: "plugins sample_collab (plugin_name sample_authority)
                = Some (\<lambda>csr opts. Inr (PemText ''BODY'', PemText ''CHAIN''))"
    by (simp add: sample_collab_def sample_plugins_def sample_authority_def)
  have a1: "dict_item ?K1 ''authority'' = Inr (PAuthority sample_authority)"
    and o1: "dict_item ?K1 ''owner'' = Inr (PStr ''alice'')"
    and a2: "dict_item ?K2 ''authority'' = Inr (PAuthority sample_authority)"
    and o2: "dict_item ?K2 ''owner'' = Inr (PStr ''alice'')"
    and d2: "dict_item ?K2 ''description'' = Inr (PStr ''web'')"
    by (simp_all add: dict_item_def sample_kwargs_def sample_subject_def)
  have f1: "update_list sample_collab (?m1\<lparr>owner := PStr ''alice''\<rparr>) ''destinations''
              (dict_get ?K1 ''destinations'') = Inl TypeError"
    by (simp add: sample_collab_def update_list_reconcile_def dict_get_def
          sample_kwargs_def sample_subject_def)
  have w2: "update_list sample_collab (?m2\<lparr>owner := PStr ''alice''\<rparr>) ''destinations''
              (dict_get ?K2 ''destinations'')
            = Inr (?m2\<lparr>owner := PStr ''alice'', destinations := [1, 2]\<rparr>)"
    by (simp add: sample_collab_def update_list_reconcile_def dict_get_def reconcile_def
          sample_kwargs_def sample_subject_def Certificate_init_def)
  have f2: "update_list sample_collab
              (?m2\<lparr>owner := PStr ''alice'', destinations := [1, 2], description := PStr ''web''\<rparr>)
              ''notifications'' (dict_get ?K2 ''notifications'') = Inl TypeError"
    by (simp add: sample_collab_def update_list_reconcile_def dict_get_def
          sample_kwargs_def sample_subject_def)
  have fields: "user_id sample_user = 7" "auth_id sample_authority = 5"
    by (simp_all add: sample_user_def sample_authority_def)
  have first: "\<exists>w' c. create sample_collab sample_user ?K1 sample_world = (Inl TypeError, w')
        \<and> get w' 3 = Some c
        \<and> body c = PemText ''BODY'' \<and> chain c = Some (PemText ''CHAIN'')
        \<and> cert_authority_id c = Some 5 \<and> cert_user_id c = Some 7
        \<and> destinations c = [] \<and> notifications c = []"
    using C1_minted_certificate_survives_wiring_failure
            [where e = TypeError and g = sample_user, OF a1 plug c1 refl refl fresh o1]
          f1 n fields
    by auto
  have second: "\<exists>w' c. create sample_collab sample_user ?K2 sample_world = (Inl TypeError, w')
        \<and> get w' 3 = Some c
        \<and> body c = PemText ''BODY'' \<and> chain c = Some (PemText ''CHAIN'')
        \<and> cert_authority_id c = Some 5 \<and> cert_user_id c = Some 7
        \<and> destinations c = [1, 2] \<and> notifications c = []"
    using C1_minted_certificate_survives_wiring_failure
            [where e = TypeError and g = sample_user and ds = "[1, 2]"
               and descr = "PStr ''web''", OF a2 plug c2 refl refl fresh o2]
          w2 d2 f2 n fields
    by auto
  show ?thesis using first second by blast
qed

section \<open>stats\<close>

text \<open>
  The result of \<^verbatim>\<open>stats\<close> does not depend on \<^verbatim>\<open>destination_id\<close>: the filtered query is
  dropped when the metric is looked at.
\<close>

lemma stats_ignores_destination:
  assumes "dict_get kwargs' ''active'' = dict_get kwargs ''active''"
    and "dict_get kwargs' ''metric'' = dict_get kwargs ''metric''"
  shows "stats cb w utcnow kwargs' = stats cb w utcnow kwargs"
  by (simp only: stats_def assms Let_def)

text \<open>
  C6 fails on the code: the sample database holds one certificate in destination 1, issued
  by \<^verbatim>\<open>CA-A\<close>, and one in no destination, issued by \<^verbatim>\<open>Issuer Corp\<close>; \<^verbatim>\<open>stats\<close> with metric
  \<^verbatim>\<open>issuer\<close> and destination 1 counts both.
\<close>

theorem C6_destination_filter_dropped:
  "stats sample_collab sample_world 0 [(''metric'', PStr ''issuer''), (''destination_id'', PInt 1)]
     = Inr \<lparr>result_labels = [Plain (PStr ''CA-A''), Plain (PStr ''Issuer Corp'')],
            result_values = [1, 1]\<rparr>
   \<and> filter (any_destination sample_collab (PInt 1)) (db_certificates sample_world) = [cert_a]"
  by (simp add: stats_def dict_get_def Certificate_columns_def group_count_def opt_val_def
        any_destination_def sample_collab_def sample_world_def cert_a_def cert_b_def
        blank_certificate_def Let_def)

end
